theory Spec2Isabelle
  imports Complex_Main
begin

section \<open>Ghost.py: a shallow embedding of ghost/ghost.py\<close>

text \<open>
  The embedding follows \<^verbatim>\<open>ghost/ghost.py\<close>. The browser engine (Qt WebKit) is not part
  of the source: it appears here as an environment. What the engine does to the Python
  state it does through the callbacks the source registers (the signal handlers of
  \<^verbatim>\<open>Ghost\<close> and the dialog hooks of \<^verbatim>\<open>GhostWebPage\<close>), so a run of the engine is a
  list of events, each handled by the source's callback for it.

  Modelling decisions:
  \<^item> Class attributes of \<^verbatim>\<open>Ghost\<close> (\<^verbatim>\<open>_alert\<close>, \<^verbatim>\<open>_confirm_expected\<close>,
    \<^verbatim>\<open>_prompt_expected\<close>, \<^verbatim>\<open>_upload_file\<close>) and the attributes of the one instance
    live in one record, passed explicitly.
  \<^item> A raise is the left summand of the result; the state reached before the raise is
    returned with it.
  \<^item> A confirm or prompt callback is a callable of the caller: it returns a value or
    raises, and it may read and change the caller's own state (the field \<open>caller\<close>), so
    that a call of a callback is observable. The wait callback changes the caller's state,
    and the wait condition reads the state of Ghost. A callable that writes Ghost's own
    attributes is outside this model.
  \<^item> Time is the sequence of readings of \<^verbatim>\<open>time.time()\<close>. The readings and the timeout
    are doubles, given by their exact values; the sum of line 610 is a sum of doubles, which
    rounds, and is a parameter of the environment. URLs are their string form; logging is
    left out.
\<close>

subsection \<open>Python values and errors\<close>

datatype error = Exception string | UnicodeDecodeError | TypeError

datatype pyval = PyStr string | PyBool bool

datatype jsval = JsNull | JsBool bool | JsStr string | JsNum int

text \<open>Python 2 \<^verbatim>\<open>unicode(x)\<close> of a byte string decodes ASCII and raises on any other byte.\<close>

definition ascii :: "string \<Rightarrow> bool" where
  "ascii bs = list_all (\<lambda>c. (of_char c :: nat) < 128) bs"

definition unicode :: "string \<Rightarrow> error + string" where
  "unicode bs = (if ascii bs then Inr bs else Inl UnicodeDecodeError)"

text \<open>The class of a raised exception, by its name.\<close>

fun exception_class :: "error \<Rightarrow> string" where
  "exception_class (Exception message) = ''Exception''"
| "exception_class UnicodeDecodeError = ''UnicodeDecodeError''"
| "exception_class TypeError = ''TypeError''"

definition raised_class :: "error + 'a \<Rightarrow> string option" where
  "raised_class r = (case r of Inl e \<Rightarrow> Some (exception_class e) | Inr x \<Rightarrow> None)"

text \<open>Truth value of \<^verbatim>\<open>reply.attribute(HttpStatusCodeAttribute)\<close>: \<^verbatim>\<open>None\<close> and 0 are false.\<close>

definition truthy :: "int option \<Rightarrow> bool" where
  "truthy a = (case a of None \<Rightarrow> False | Some n \<Rightarrow> n \<noteq> 0)"

subsection \<open>Network replies and HttpResource\<close>

record reply =
  reply_url :: string
  status_code :: "int option"
  raw_headers :: "(string \<times> string) list"
  read_all :: string

definition rawHeaderList :: "reply \<Rightarrow> string list" where
  "rawHeaderList r = map fst (raw_headers r)"

definition rawHeader :: "reply \<Rightarrow> string \<Rightarrow> string" where
  "rawHeader r h = (case map_of (raw_headers r) h of None \<Rightarrow> [] | Some v \<Rightarrow> v)"

datatype body = Text string | Bytes string

record http_resource =
  url :: string
  content :: "body option"
  http_status :: "int option"
  headers :: "string \<rightharpoonup> string"
  res_reply :: reply

text \<open>Lines 140-148: the body is looked up in the cache; \<^verbatim>\<open>unicode\<close> of it is kept when it
  decodes, the raw bytes otherwise.\<close>

definition cached_content :: "(string \<rightharpoonup> string) \<Rightarrow> string \<Rightarrow> body option" where
  "cached_content cache_data u =
     (case cache_data u of
        None \<Rightarrow> None
      | Some buffer \<Rightarrow>
          (case unicode buffer of Inr s \<Rightarrow> Some (Text s) | Inl e \<Rightarrow> Some (Bytes buffer)))"

text \<open>Lines 152-154: the loop over \<^verbatim>\<open>rawHeaderList()\<close>; the value is evaluated before the
  key, and neither \<^verbatim>\<open>unicode\<close> call is guarded.\<close>

fun header_dict :: "reply \<Rightarrow> string list \<Rightarrow> (string \<rightharpoonup> string) \<Rightarrow> error + (string \<rightharpoonup> string)" where
  "header_dict r [] hs = Inr hs"
| "header_dict r (h # rest) hs =
     (case unicode (rawHeader r h) of
        Inl e \<Rightarrow> Inl e
      | Inr v \<Rightarrow> (case unicode h of
                   Inl e \<Rightarrow> Inl e
                 | Inr k \<Rightarrow> header_dict r rest (hs(k \<mapsto> v))))"

definition HttpResource :: "reply \<Rightarrow> (string \<rightharpoonup> string) \<Rightarrow> body option \<Rightarrow> error + http_resource" where
  "HttpResource r cache_data content0 =
     (let u = reply_url r;
          c = (case content0 of None \<Rightarrow> cached_content cache_data u | Some b \<Rightarrow> Some b)
      in case header_dict r (rawHeaderList r) Map.empty of
           Inl e \<Rightarrow> Inl e
         | Inr hs \<Rightarrow> Inr \<lparr>url = u, content = c, http_status = status_code r,
                          headers = hs, res_reply = r\<rparr>)"

subsection \<open>The state of Ghost\<close>

record element =
  tag_name :: string
  attributes :: "string \<rightharpoonup> string"
  plain_text :: string

record 'u ghost =
  alert_message :: "string option"
  confirm_expected :: "(bool \<times> ('u \<Rightarrow> (error + bool) \<times> 'u) option) option"
  prompt_expected :: "(string \<times> ('u \<Rightarrow> (error + string) \<times> 'u) option) option"
  upload_file :: "pyval option"
  http_resources :: "http_resource list"
  loaded :: bool
  wait_timeout :: real
  wait_callback :: "('u \<Rightarrow> 'u) option"
  auth :: "(string \<times> string) option"
  auth_attempt :: nat
  cache :: "string \<rightharpoonup> string"
  frame_url :: string
  frame_html :: string
  elements :: "element list"
  focused :: "nat option"
  caller :: 'u

text \<open>\<^verbatim>\<open>Ghost.__init__\<close> with its default arguments, on an empty page and an empty cache.\<close>

definition ghost_init :: "'u \<Rightarrow> 'u ghost" where
  "ghost_init u =
     \<lparr>alert_message = None, confirm_expected = None, prompt_expected = None,
      upload_file = None, http_resources = [], loaded = True, wait_timeout = 8,
      wait_callback = None, auth = None, auth_attempt = 0, cache = Map.empty,
      frame_url = [], frame_html = [], elements = [], focused = None, caller = u\<rparr>"

subsection \<open>Signal handlers of Ghost (lines 670-706)\<close>

definition page_loaded :: "'u ghost \<Rightarrow> 'u ghost" where
  "page_loaded g = g\<lparr>loaded := True, cache := Map.empty\<rparr>"

definition page_load_started :: "'u ghost \<Rightarrow> 'u ghost" where
  "page_load_started g = g\<lparr>loaded := False\<rparr>"

definition release_last_resources :: "'u ghost \<Rightarrow> http_resource list \<times> 'u ghost" where
  "release_last_resources g = (http_resources g, g\<lparr>http_resources := []\<rparr>)"

definition request_ended :: "reply \<Rightarrow> 'u ghost \<Rightarrow> (error + unit) \<times> 'u ghost" where
  "request_ended r g =
     (if truthy (status_code r) then
        (case HttpResource r (cache g) None of
           Inl e \<Rightarrow> (Inl e, g)
         | Inr x \<Rightarrow> (Inr (), g\<lparr>http_resources := http_resources g @ [x]\<rparr>))
      else (Inr (), g))"

definition unsupported_content :: "reply \<Rightarrow> 'u ghost \<Rightarrow> (error + unit) \<times> 'u ghost" where
  "unsupported_content r g =
     (if truthy (status_code r) then
        (case HttpResource r (cache g) (Some (Bytes (read_all r))) of
           Inl e \<Rightarrow> (Inl e, g)
         | Inr x \<Rightarrow> (Inr (), g\<lparr>http_resources := http_resources g @ [x]\<rparr>))
      else (Inr (), g))"

subsection \<open>Dialog hooks of GhostWebPage (lines 65-103) and the scoped expectations\<close>

definition javaScriptAlert :: "string \<Rightarrow> 'u ghost \<Rightarrow> (error + unit) \<times> 'u ghost" where
  "javaScriptAlert message g = (Inr (), g\<lparr>alert_message := Some message\<rparr>)"

definition javaScriptConfirm :: "string \<Rightarrow> 'u ghost \<Rightarrow> (error + bool) \<times> 'u ghost" where
  \<open>javaScriptConfirm message g =
     (case confirm_expected g of
        None \<Rightarrow> (Inl (Exception (''You must specified a value to confirm "'' @ message @ ''"'')), g)
      | Some (confirmation, callback) \<Rightarrow>
          (let g1 = g\<lparr>confirm_expected := None\<rparr>
           in case callback of
                Some cb \<Rightarrow> (case cb (caller g1) of (outcome, u) \<Rightarrow> (outcome, g1\<lparr>caller := u\<rparr>))
              | None \<Rightarrow> (Inr confirmation, g1)))\<close>

text \<open>The two shapes the prompt hook returns: \<^verbatim>\<open>(True, result_value)\<close>, or \<^verbatim>\<open>True\<close> after
  \<^verbatim>\<open>result.append(result_value)\<close>; the second carries the list as it is after the append.\<close>

datatype prompt_return = ReturnPair bool string | ReturnBool bool "string list"

text \<open>Lines 95-103 of the prompt hook, once \<^verbatim>\<open>result_value\<close> is known: the slot is
  cleared and the answer is returned in one of the two shapes.\<close>

definition prompt_answer ::
  "string list option \<Rightarrow> string \<Rightarrow> 'u ghost \<Rightarrow> (error + prompt_return) \<times> 'u ghost" where
  "prompt_answer result result_value g =
     (let g1 = g\<lparr>prompt_expected := None\<rparr>
      in case result of
           None \<Rightarrow> (Inr (ReturnPair True result_value), g1)
         | Some lst \<Rightarrow> (Inr (ReturnBool True (lst @ [result_value])), g1))"

text \<open>The callback is called at line 94, before the slot is cleared at line 98: when it
  raises, the hook is left with the slot as it was.\<close>

definition javaScriptPrompt ::
  "string \<Rightarrow> string \<Rightarrow> string list option \<Rightarrow> 'u ghost \<Rightarrow> (error + prompt_return) \<times> 'u ghost" where
  \<open>javaScriptPrompt message defaultValue result g =
     (case prompt_expected g of
        None \<Rightarrow> (Inl (Exception (''You must specified a value for prompt "'' @ message @ ''"'')), g)
      | Some (value0, callback) \<Rightarrow>
          (case callback of
             None \<Rightarrow> prompt_answer result value0 g
           | Some cb \<Rightarrow>
               (case cb (caller g) of
                  (Inl e, u) \<Rightarrow> (Inl e, g\<lparr>caller := u\<rparr>)
                | (Inr result_value, u) \<Rightarrow> prompt_answer result result_value (g\<lparr>caller := u\<rparr>))))\<close>

text \<open>\<^verbatim>\<open>Ghost.confirm\<close> and \<^verbatim>\<open>Ghost.prompt\<close>: \<^verbatim>\<open>__enter__\<close> and \<^verbatim>\<open>__exit__\<close>.\<close>

definition confirm_enter ::
  "bool \<Rightarrow> ('u \<Rightarrow> (error + bool) \<times> 'u) option \<Rightarrow> 'u ghost \<Rightarrow> 'u ghost" where
  "confirm_enter confirm callback g = g\<lparr>confirm_expected := Some (confirm, callback)\<rparr>"

definition confirm_exit :: "'u ghost \<Rightarrow> 'u ghost" where
  "confirm_exit g = g\<lparr>confirm_expected := None\<rparr>"

definition prompt_enter ::
  "string \<Rightarrow> ('u \<Rightarrow> (error + string) \<times> 'u) option \<Rightarrow> 'u ghost \<Rightarrow> 'u ghost" where
  "prompt_enter val callback g = g\<lparr>prompt_expected := Some (val, callback)\<rparr>"

definition prompt_exit :: "'u ghost \<Rightarrow> 'u ghost" where
  "prompt_exit g = g\<lparr>prompt_expected := None\<rparr>"

subsection \<open>Events of the engine\<close>

text \<open>
  One event per callback the source registers, and three for what the engine changes in
  its own objects (the frame, the disk cache). An exception raised inside a callback does
  not reach the script: the binding reports it and the engine goes on, with the state as the
  callback left it.
\<close>

datatype event =
    LoadStarted
  | LoadFinished
  | RequestEnded reply
  | UnsupportedContent reply
  | JsAlert string
  | JsConfirm string
  | JsPrompt string string "string list option"
  | FrameChanged string string "element list"
  | CacheStored string string

fun handle :: "event \<Rightarrow> 'u ghost \<Rightarrow> 'u ghost" where
  "handle LoadStarted g = page_load_started g"
| "handle LoadFinished g = page_loaded g"
| "handle (RequestEnded r) g = snd (request_ended r g)"
| "handle (UnsupportedContent r) g = snd (unsupported_content r g)"
| "handle (JsAlert m) g = snd (javaScriptAlert m g)"
| "handle (JsConfirm m) g = snd (javaScriptConfirm m g)"
| "handle (JsPrompt m d res) g = snd (javaScriptPrompt m d res g)"
| "handle (FrameChanged u html els) g = g\<lparr>frame_url := u, frame_html := html, elements := els\<rparr>"
| "handle (CacheStored u data) g = g\<lparr>cache := (cache g)(u \<mapsto> data)\<rparr>"

fun process_events :: "event list \<Rightarrow> 'u ghost \<Rightarrow> 'u ghost" where
  "process_events [] g = g"
| "process_events (e # es) g = process_events es (handle e g)"

subsection \<open>The synchronous wait (lines 602-638)\<close>

text \<open>
  What the world does while \<^verbatim>\<open>wait_for\<close> runs: \<open>clock env 0\<close> is the reading of
  \<^verbatim>\<open>time.time()\<close> taken for \<^verbatim>\<open>started_at\<close>, \<open>clock env (Suc k)\<close> the reading taken in
  iteration \<open>k\<close> of the loop, and \<open>pump env k\<close> the events that
  \<^verbatim>\<open>Ghost._app.processEvents()\<close> delivers in iteration \<open>k\<close>. \<open>float_add env a b\<close> is the
  double that the machine's addition gives for the doubles \<open>a\<close> and \<open>b\<close>: the exact sum
  \<open>a + b\<close> rounded. The comparison of two doubles is the comparison of their values.
\<close>

record environment =
  clock :: "nat \<Rightarrow> real"
  pump :: "nat \<Rightarrow> event list"
  float_add :: "real \<Rightarrow> real \<Rightarrow> real"

definition run_wait_callback :: "'u ghost \<Rightarrow> 'u ghost" where
  "run_wait_callback g =
     (case wait_callback g of None \<Rightarrow> g | Some f \<Rightarrow> g\<lparr>caller := f (caller g)\<rparr>)"

text \<open>Lines 612-615: the rest of one iteration, after the timeout test.\<close>

definition wait_step :: "environment \<Rightarrow> nat \<Rightarrow> 'u ghost \<Rightarrow> 'u ghost" where
  "wait_step env k g = run_wait_callback (process_events (pump env k) g)"

partial_function (option) wait_loop ::
  "('u ghost \<Rightarrow> bool) \<Rightarrow> string \<Rightarrow> environment \<Rightarrow> real \<Rightarrow> nat \<Rightarrow> 'u ghost
     \<Rightarrow> ((error + unit) \<times> 'u ghost) option" where
  "wait_loop condition timeout_message env started_at k g =
     (if condition g then Some (Inr (), g)
      else if clock env (Suc k) > float_add env started_at (wait_timeout g)
        then Some (Inl (Exception timeout_message), g)
      else wait_loop condition timeout_message env started_at (Suc k) (wait_step env k g))"

definition wait_for ::
  "('u ghost \<Rightarrow> bool) \<Rightarrow> string \<Rightarrow> environment \<Rightarrow> 'u ghost \<Rightarrow> ((error + unit) \<times> 'u ghost) option" where
  "wait_for condition timeout_message env g =
     wait_loop condition timeout_message env (clock env 0) 0 g"

text \<open>The state at the head of iteration \<open>k\<close> of the loop, when the loop gets that far.\<close>

primrec wait_state :: "environment \<Rightarrow> 'u ghost \<Rightarrow> nat \<Rightarrow> 'u ghost" where
  "wait_state env g 0 = g"
| "wait_state env g (Suc k) = wait_step env k (wait_state env g k)"

text \<open>Lines 632-637: the loop that picks the page among the released resources.\<close>

fun page_for :: "string \<Rightarrow> http_resource list \<Rightarrow> http_resource option \<Rightarrow> http_resource option" where
  "page_for u [] page = page"
| "page_for u (r # rs) page = page_for u rs (if u = url r then Some r else page)"

type_synonym page_result = "http_resource option \<times> http_resource list"

definition wait_for_page_loaded ::
  "environment \<Rightarrow> 'u ghost \<Rightarrow> ((error + page_result) \<times> 'u ghost) option" where
  "wait_for_page_loaded env g =
     (case wait_for loaded ''Unable to load requested page'' env g of
        None \<Rightarrow> None
      | Some (Inl e, g1) \<Rightarrow> Some (Inl e, g1)
      | Some (Inr x, g1) \<Rightarrow>
          (case release_last_resources g1 of
             (resources, g2) \<Rightarrow>
               Some (Inr (page_for (frame_url g2) resources None, resources), g2)))"

text \<open>The decorator \<^verbatim>\<open>can_load_page\<close> (lines 112-128), applied to a method body.\<close>

definition can_load_page ::
  "('u ghost \<Rightarrow> (error + 'a) \<times> 'u ghost) \<Rightarrow> bool \<Rightarrow> environment \<Rightarrow> 'u ghost
     \<Rightarrow> ((error + ('a + page_result)) \<times> 'u ghost) option" where
  "can_load_page func expect_loading env g =
     (if expect_loading then
        (case func (g\<lparr>loaded := False\<rparr>) of
           (Inl e, g1) \<Rightarrow> Some (Inl e, g1)
         | (Inr x, g1) \<Rightarrow>
             (case wait_for_page_loaded env g1 of
                None \<Rightarrow> None
              | Some (Inl e, g2) \<Rightarrow> Some (Inl e, g2)
              | Some (Inr p, g2) \<Rightarrow> Some (Inr (Inr p), g2)))
      else (case func g of
              (Inl e, g1) \<Rightarrow> Some (Inl e, g1)
            | (Inr x, g1) \<Rightarrow> Some (Inr (Inl x), g1)))"

subsection \<open>The DOM bridge (lines 338-352, 384-445, 518-585)\<close>

text \<open>
  What the source asks of the engine: whether element \<open>i\<close> of the document matches a
  selector, what a script evaluates to and which callbacks fire while it runs, which
  \<^verbatim>\<open>...Operation\<close> attributes \<^verbatim>\<open>QNetworkAccessManager\<close> has, and which callbacks fire
  inside \<^verbatim>\<open>main_frame.load\<close>.
\<close>

record 'u engine =
  selector_matches :: "string \<Rightarrow> element list \<Rightarrow> nat \<Rightarrow> bool"
  javascript :: "string \<Rightarrow> 'u ghost \<Rightarrow> jsval \<times> event list"
  network_operation :: "string \<Rightarrow> nat option"
  load_request :: "string \<Rightarrow> nat \<Rightarrow> (string \<times> string) list \<Rightarrow> string \<Rightarrow> event list"

definition find_all :: "'u engine \<Rightarrow> string \<Rightarrow> 'u ghost \<Rightarrow> nat list" where
  "find_all eng selector g =
     filter (selector_matches eng selector (elements g)) [0..<length (elements g)]"

text \<open>\<^verbatim>\<open>findFirstElement\<close>: \<open>None\<close> is the null element.\<close>

definition find_first :: "'u engine \<Rightarrow> string \<Rightarrow> 'u ghost \<Rightarrow> nat option" where
  "find_first eng selector g = (case find_all eng selector g of [] \<Rightarrow> None | i # rest \<Rightarrow> Some i)"

definition exists_sel :: "'u engine \<Rightarrow> string \<Rightarrow> 'u ghost \<Rightarrow> bool" where
  "exists_sel eng selector g = (find_first eng selector g \<noteq> None)"

definition evaluate_body ::
  "'u engine \<Rightarrow> string \<Rightarrow> 'u ghost \<Rightarrow> (error + jsval \<times> http_resource list) \<times> 'u ghost" where
  "evaluate_body eng script g =
     (case javascript eng script g of
        (v, evs) \<Rightarrow>
          (case release_last_resources (process_events evs g) of
             (resources, g1) \<Rightarrow> (Inr (v, resources), g1)))"

definition nl :: string where
  "nl = [CHR 0x0A]"

definition click_script :: "string \<Rightarrow> string" where
  \<open>click_script selector =
     nl @ ''            var element = document.querySelector("'' @ selector @ ''");'' @
     nl @ ''            var evt = document.createEvent("MouseEvents");'' @
     nl @ ''            evt.initMouseEvent("click", true, true, window, 1, 1, 1, 1, 1,'' @
     nl @ ''                false, false, false, false, 0, element);'' @
     nl @ ''            element.dispatchEvent(evt)'' @
     nl @ ''        ''\<close>

definition click_body ::
  "'u engine \<Rightarrow> string \<Rightarrow> 'u ghost \<Rightarrow> (error + jsval \<times> http_resource list) \<times> 'u ghost" where
  "click_body eng selector g =
     (if \<not> exists_sel eng selector g then (Inl (Exception ''Can't find element to click''), g)
      else evaluate_body eng (click_script selector) g)"

definition fire_on_body ::
  "'u engine \<Rightarrow> string \<Rightarrow> string \<Rightarrow> 'u ghost \<Rightarrow> (error + jsval \<times> http_resource list) \<times> 'u ghost" where
  \<open>fire_on_body eng selector method g =
     evaluate_body eng (''document.querySelector("'' @ selector @ ''").'' @ method @ ''();'') g\<close>

text \<open>Element handles: \<^verbatim>\<open>attribute\<close> of a missing attribute is the empty string.\<close>

definition attribute :: "'u ghost \<Rightarrow> nat \<Rightarrow> string \<Rightarrow> string" where
  "attribute g i name = (case attributes (elements g ! i) name of None \<Rightarrow> [] | Some v \<Rightarrow> v)"

definition set_focus :: "nat \<Rightarrow> 'u ghost \<Rightarrow> 'u ghost" where
  "set_focus i g = g\<lparr>focused := Some i\<rparr>"

definition set_attribute :: "nat \<Rightarrow> string \<Rightarrow> string \<Rightarrow> 'u ghost \<Rightarrow> 'u ghost" where
  "set_attribute i name v g =
     g\<lparr>elements := (elements g)[i := (elements g ! i)
          \<lparr>attributes := (attributes (elements g ! i))(name \<mapsto> v)\<rparr>]\<rparr>"

definition remove_attribute :: "nat \<Rightarrow> string \<Rightarrow> 'u ghost \<Rightarrow> 'u ghost" where
  "remove_attribute i name g =
     g\<lparr>elements := (elements g)[i := (elements g ! i)
          \<lparr>attributes := (attributes (elements g ! i))(name := None)\<rparr>]\<rparr>"

definition set_plain_text :: "nat \<Rightarrow> string \<Rightarrow> 'u ghost \<Rightarrow> 'u ghost" where
  "set_plain_text i v g = g\<lparr>elements := (elements g)[i := (elements g ! i)\<lparr>plain_text := v\<rparr>]\<rparr>"

text \<open>The local helpers of \<^verbatim>\<open>set_field_value\<close> (lines 526-552). The binding takes only a
  string where the engine wants one, and raises \<^verbatim>\<open>TypeError\<close> otherwise.\<close>

definition set_checkbox_value :: "nat \<Rightarrow> pyval \<Rightarrow> 'u ghost \<Rightarrow> 'u ghost" where
  "set_checkbox_value el v g =
     (let g1 = set_focus el g
      in if v = PyBool True then set_attribute el ''checked'' ''checked'' g1
         else remove_attribute el ''checked'' g1)"

fun set_checkboxes_value :: "nat list \<Rightarrow> pyval \<Rightarrow> 'u ghost \<Rightarrow> 'u ghost" where
  "set_checkboxes_value [] v g = g"
| "set_checkboxes_value (el # els) v g =
     set_checkboxes_value els v
       (if PyStr (attribute g el ''value'') = v then set_checkbox_value el (PyBool True) g
        else set_checkbox_value el (PyBool False) g)"

fun set_radio_value :: "nat list \<Rightarrow> pyval \<Rightarrow> 'u ghost \<Rightarrow> 'u ghost" where
  "set_radio_value [] v g = g"
| "set_radio_value (el # els) v g =
     set_radio_value els v
       (if PyStr (attribute g el ''value'') = v
        then set_attribute el ''checked'' ''checked'' (set_focus el g)
        else g)"

definition set_text_value :: "nat \<Rightarrow> pyval \<Rightarrow> 'u ghost \<Rightarrow> (error + unit) \<times> 'u ghost" where
  "set_text_value el v g =
     (let g1 = set_focus el g
      in case v of PyStr s \<Rightarrow> (Inr (), set_attribute el ''value'' s g1)
                 | PyBool b \<Rightarrow> (Inl TypeError, g1))"

definition set_textarea_value :: "nat \<Rightarrow> pyval \<Rightarrow> 'u ghost \<Rightarrow> (error + unit) \<times> 'u ghost" where
  "set_textarea_value el v g =
     (let g1 = set_focus el g
      in case v of PyStr s \<Rightarrow> (Inr (), set_plain_text el s g1)
                 | PyBool b \<Rightarrow> (Inl TypeError, g1))"

definition text_types :: "string list" where
  "text_types = [''color'', ''date'', ''datetime'', ''datetime-local'', ''email'', ''hidden'',
     ''month'', ''number'', ''password'', ''range'', ''search'', ''tel'', ''text'', ''time'',
     ''url'', ''week'']"

text \<open>Lines 558-582: the dispatch on the tag and the type of the element found; the result
  is the value bound to \<^verbatim>\<open>res\<close>.\<close>

definition field_update ::
  "'u engine \<Rightarrow> string \<Rightarrow> pyval \<Rightarrow> nat \<Rightarrow> 'u ghost \<Rightarrow> (error + jsval option) \<times> 'u ghost" where
  "field_update eng selector v el g =
     (if tag_name (elements g ! el) = ''SELECT'' then
        (case set_text_value el v g of (Inl e, g1) \<Rightarrow> (Inl e, g1) | (Inr x, g1) \<Rightarrow> (Inr None, g1))
      else if tag_name (elements g ! el) = ''TEXTAREA'' then
        (case set_textarea_value el v g of
           (Inl e, g1) \<Rightarrow> (Inl e, g1) | (Inr x, g1) \<Rightarrow> (Inr None, g1))
      else if tag_name (elements g ! el) = ''INPUT'' then
        (if attribute g el ''type'' \<in> set text_types then
           (case set_text_value el v g of
              (Inl e, g1) \<Rightarrow> (Inl e, g1) | (Inr x, g1) \<Rightarrow> (Inr None, g1))
         else if attribute g el ''type'' = ''checkbox'' then
           (if length (find_all eng selector g) > 1
            then (Inr None, set_checkboxes_value (find_all eng selector g) v g)
            else (Inr None, set_checkbox_value el v g))
         else if attribute g el ''type'' = ''radio'' then
           (Inr None, set_radio_value (find_all eng selector g) v g)
         else if attribute g el ''type'' = ''file'' then
           (case click_body eng selector (g\<lparr>upload_file := Some v\<rparr>) of
              (Inl e, g1) \<Rightarrow> (Inl e, g1)
            | (Inr (res, resources), g1) \<Rightarrow> (Inr (Some res), g1\<lparr>upload_file := None\<rparr>))
         else (Inr None, g))
      else (Inl (Exception ''unsuported field tag''), g))"

text \<open>\<^verbatim>\<open>set_field_value\<close> returns \<^verbatim>\<open>res, ressources\<close>; \<^verbatim>\<open>ressources\<close> is never written after
  line 554, so the second component is the empty list.\<close>

definition set_field_value_body ::
  "'u engine \<Rightarrow> string \<Rightarrow> pyval \<Rightarrow> bool \<Rightarrow> 'u ghost
     \<Rightarrow> (error + jsval option \<times> http_resource list) \<times> 'u ghost" where
  \<open>set_field_value_body eng selector v blur g =
     (case find_first eng selector g of
        None \<Rightarrow> (Inl (Exception (''can't find element for '' @ selector @ ''"'')), g)
      | Some el \<Rightarrow>
          (case field_update eng selector v el g of
             (Inl e, g1) \<Rightarrow> (Inl e, g1)
           | (Inr res, g1) \<Rightarrow>
               (if blur then (Inr (res, []), snd (fire_on_body eng selector ''blur'' g1))
                else (Inr (res, []), g1))))\<close>

fun fill_fields ::
  "'u engine \<Rightarrow> string \<Rightarrow> (string \<times> pyval) list \<Rightarrow> http_resource list \<Rightarrow> 'u ghost
     \<Rightarrow> (error + http_resource list) \<times> 'u ghost" where
  "fill_fields eng selector [] resources g = (Inr resources, g)"
| "fill_fields eng selector ((field, v) # rest) resources g =
     (case set_field_value_body eng (selector @ '' [name='' @ field @ '']'') v True g of
        (Inl e, g1) \<Rightarrow> (Inl e, g1)
      | (Inr (r, res), g1) \<Rightarrow> fill_fields eng selector rest (resources @ res) g1)"

definition fill_body ::
  "'u engine \<Rightarrow> string \<Rightarrow> (string \<times> pyval) list \<Rightarrow> 'u ghost
     \<Rightarrow> (error + bool \<times> http_resource list) \<times> 'u ghost" where
  "fill_body eng selector vals g =
     (if \<not> exists_sel eng selector g then (Inl (Exception ''Can't find form''), g)
      else (case fill_fields eng selector vals [] g of
              (Inl e, g1) \<Rightarrow> (Inl e, g1)
            | (Inr resources, g1) \<Rightarrow> (Inr (True, resources), g1)))"

text \<open>The methods as the caller sees them, with the keyword \<^verbatim>\<open>expect_loading\<close> of the
  decorator. Calls between methods in the source pass no \<^verbatim>\<open>expect_loading\<close>, which is
  the undecorated body.\<close>

definition click ::
  "'u engine \<Rightarrow> environment \<Rightarrow> bool \<Rightarrow> string \<Rightarrow> 'u ghost
     \<Rightarrow> ((error + (jsval \<times> http_resource list + page_result)) \<times> 'u ghost) option" where
  "click eng env expect_loading selector g =
     can_load_page (click_body eng selector) expect_loading env g"

definition fill ::
  "'u engine \<Rightarrow> environment \<Rightarrow> bool \<Rightarrow> string \<Rightarrow> (string \<times> pyval) list \<Rightarrow> 'u ghost
     \<Rightarrow> ((error + (bool \<times> http_resource list + page_result)) \<times> 'u ghost) option" where
  "fill eng env expect_loading selector vals g =
     can_load_page (fill_body eng selector vals) expect_loading env g"

definition set_field_value ::
  "'u engine \<Rightarrow> environment \<Rightarrow> bool \<Rightarrow> string \<Rightarrow> pyval \<Rightarrow> bool \<Rightarrow> 'u ghost
     \<Rightarrow> ((error + (jsval option \<times> http_resource list + page_result)) \<times> 'u ghost) option" where
  "set_field_value eng env expect_loading selector v blur g =
     can_load_page (set_field_value_body eng selector v blur) expect_loading env g"

subsection \<open>Opening a page (lines 462-488)\<close>

text \<open>\<^verbatim>\<open>str.capitalize\<close> on ASCII letters.\<close>

definition upper_char :: "char \<Rightarrow> char" where
  "upper_char c = (if (97::nat) \<le> of_char c \<and> (of_char c :: nat) \<le> 122
                   then char_of ((of_char c :: nat) - 32) else c)"

definition lower_char :: "char \<Rightarrow> char" where
  "lower_char c = (if (65::nat) \<le> of_char c \<and> (of_char c :: nat) \<le> 90
                   then char_of ((of_char c :: nat) + 32) else c)"

definition capitalize :: "string \<Rightarrow> string" where
  "capitalize s = (case s of [] \<Rightarrow> [] | c # cs \<Rightarrow> upper_char c # map lower_char cs)"

definition open_page ::
  "'u engine \<Rightarrow> environment \<Rightarrow> string \<Rightarrow> string \<Rightarrow> (string \<times> string) list
     \<Rightarrow> (string \<times> string) option \<Rightarrow> string option \<Rightarrow> 'u ghost
     \<Rightarrow> ((error + page_result) \<times> 'u ghost) option" where
  "open_page eng env address method hdrs auth0 body0 g =
     (case network_operation eng (capitalize method @ ''Operation'') of
        None \<Rightarrow> Some (Inl (Exception (''Invalid http method '' @ method)), g)
      | Some operation \<Rightarrow>
          (let request_body = (case body0 of None \<Rightarrow> [] | Some b \<Rightarrow> b);
               g1 = g\<lparr>auth := auth0, auth_attempt := 0\<rparr>;
               g2 = process_events (load_request eng address operation hdrs request_body) g1;
               g3 = g2\<lparr>loaded := False\<rparr>
           in wait_for_page_loaded env g3))"

subsection \<open>What a run of the engine records\<close>

text \<open>
  \<^verbatim>\<open>HttpResource.__init__\<close> decodes every header name and value with an unguarded
  \<^verbatim>\<open>unicode\<close> (lines 152-154). \<open>headers_decode r\<close> says that they all decode, and
  \<open>resource_record\<close> is the record the constructor builds then.
\<close>

definition headers_decode :: "reply \<Rightarrow> bool" where
  "headers_decode r = list_all (\<lambda>h. ascii (rawHeader r h) \<and> ascii h) (rawHeaderList r)"

definition decoded_headers :: "reply \<Rightarrow> (string \<rightharpoonup> string)" where
  "decoded_headers r = fold (\<lambda>h hs. hs(h \<mapsto> rawHeader r h)) (rawHeaderList r) Map.empty"

definition resource_record :: "reply \<Rightarrow> (string \<rightharpoonup> string) \<Rightarrow> body option \<Rightarrow> http_resource" where
  "resource_record r cache_data content0 =
     \<lparr>url = reply_url r,
      content = (case content0 of None \<Rightarrow> cached_content cache_data (reply_url r)
                                | Some b \<Rightarrow> Some b),
      http_status = status_code r, headers = decoded_headers r, res_reply = r\<rparr>"

text \<open>
  The record an event is to add to the resource buffer, read off lines 695-696 and
  704-706: a finished or unsupported-content reply whose status attribute is true adds its
  record, built in the state the event finds; any other event adds nothing.
  \<open>arrivals evs g\<close> lists these records for a run \<open>evs\<close> from the state \<open>g\<close>, in the order
  of the events. \<open>event_decodes e\<close> says that the headers of the reply of \<open>e\<close> decode, when
  \<open>e\<close> is a reply with a status.
\<close>

fun recorded :: "event \<Rightarrow> 'u ghost \<Rightarrow> http_resource list" where
  "recorded (RequestEnded r) g =
     (if truthy (status_code r) then [resource_record r (cache g) None] else [])"
| "recorded (UnsupportedContent r) g =
     (if truthy (status_code r)
      then [resource_record r (cache g) (Some (Bytes (read_all r)))] else [])"
| "recorded e g = []"

fun arrivals :: "event list \<Rightarrow> 'u ghost \<Rightarrow> http_resource list" where
  "arrivals [] g = []"
| "arrivals (e # es) g = recorded e g @ arrivals es (handle e g)"

fun event_decodes :: "event \<Rightarrow> bool" where
  "event_decodes (RequestEnded r) = (if truthy (status_code r) then headers_decode r else True)"
| "event_decodes (UnsupportedContent r) =
     (if truthy (status_code r) then headers_decode r else True)"
| "event_decodes e = True"

subsection \<open>Concrete replies, engines and environments\<close>

text \<open>A reply for a local file: it finishes, and it has no HTTP status.\<close>

definition reply_no_status :: reply where
  "reply_no_status = \<lparr>reply_url = ''file:///srv/www/index.html'', status_code = None,
     raw_headers = [], read_all = ''<p>a</p>''\<rparr>"

definition reply_ok :: reply where
  "reply_ok = \<lparr>reply_url = ''http://localhost/a'', status_code = Some 200,
     raw_headers = [(''Content-Type'', ''text/html'')], read_all = ''<p>a</p>''\<rparr>"

definition reply_pdf :: reply where
  "reply_pdf = \<lparr>reply_url = ''http://localhost/b.pdf'', status_code = Some 200,
     raw_headers = [], read_all = ''%PDF''\<rparr>"



definition reply_moved :: reply where
  "reply_moved = \<lparr>reply_url = ''http://localhost/a'', status_code = Some 301,
     raw_headers = [], read_all = []\<rparr>"

text \<open>An idle world: the clock advances three seconds a reading, no event arrives. The
  readings are small integers, and so are the sums that are taken: the doubles add exactly.\<close>

definition env_slow :: environment where
  "env_slow = \<lparr>clock = (\<lambda>k. 3 * real k), pump = (\<lambda>k. []), float_add = (\<lambda>a b. a + b)\<rparr>"

text \<open>A world in which a page with the URL \<open>u\<close> loads during the first pump: a redirect,
  a document and the page itself arrive, then the load finishes.\<close>

definition env_page :: "string \<Rightarrow> environment" where
  "env_page u = \<lparr>clock = (\<lambda>k. real k),
     pump = (\<lambda>k. if k = 0
               then [LoadStarted, FrameChanged u ''<p>a</p>'' [], RequestEnded reply_moved,
                     RequestEnded reply_pdf, RequestEnded reply_ok, LoadFinished]
               else []),
     float_add = (\<lambda>a b. a + b)\<rparr>"

definition ghost_loading :: "unit ghost" where
  "ghost_loading = (ghost_init ())\<lparr>loaded := False\<rparr>"

text \<open>
  \<^verbatim>\<open>Ghost(wait_timeout=0.7)\<close> waiting from \<^verbatim>\<open>started_at = 1762387200.0\<close>, in an idle world. The
  double for 0.7 is \<open>3152519739159347 / 2 ^ 52\<close>. The first reading is half a second after
  the start. The second reading is the double for 1762387200.7, which is
  \<open>7391987685444813 / 2 ^ 22\<close>; the double sum of \<^verbatim>\<open>started_at\<close> and the timeout is that
  same double, the exact sum lying just below it. Every later reading is the next double,
  \<open>3695993842722407 / 2 ^ 21\<close>.
\<close>

definition env_boundary :: environment where
  "env_boundary =
     \<lparr>clock = (\<lambda>k. if k = 0 then 1762387200
                   else if k = 1 then 3524774401 / 2
                   else if k = 2 then 7391987685444813 / 4194304
                   else 3695993842722407 / 2097152),
      pump = (\<lambda>k. []),
      float_add = (\<lambda>a b. if a = 1762387200 \<and> b = 3152519739159347 / 4503599627370496
                          then 7391987685444813 / 4194304 else a + b)\<rparr>"

definition ghost_short :: "unit ghost" where
  "ghost_short = (ghost_init ())\<lparr>loaded := False,
     wait_timeout := 3152519739159347 / 4503599627370496\<rparr>"

definition ghost_cached :: "unit ghost" where
  "ghost_cached = handle (CacheStored ''http://localhost/a'' ''<p>a</p>'') (ghost_init ())"

text \<open>An engine whose selectors are tag names, whose scripts do nothing and which knows the
  operation \<^verbatim>\<open>GetOperation\<close>; and a page with a form and a text input.\<close>

definition tag_engine :: "unit engine" where
  "tag_engine =
     \<lparr>selector_matches = (\<lambda>selector els i. tag_name (els ! i) = selector),
      javascript = (\<lambda>script g. (JsNull, [])),
      network_operation = (\<lambda>name. if name = ''GetOperation'' then Some 2 else None),
      load_request = (\<lambda>address operation hdrs request_body. [LoadStarted])\<rparr>"

definition ghost_form :: "unit ghost" where
  "ghost_form = (ghost_init ())\<lparr>elements :=
     [\<lparr>tag_name = ''FORM'', attributes = Map.empty, plain_text = []\<rparr>,
      \<lparr>tag_name = ''INPUT'', attributes = [''type'' \<mapsto> ''text''], plain_text = []\<rparr>]\<rparr>"

subsection \<open>Callbacks that count their calls\<close>

text \<open>
  The caller's state of the examples holds counters. \<open>count_confirm\<close> and \<open>count_prompt\<close>
  count their own calls and return an answer; \<open>raising_confirm\<close> and \<open>raising_prompt\<close>
  count their own calls and raise.
\<close>

definition count_confirm :: "nat \<times> nat \<Rightarrow> (error + bool) \<times> nat \<times> nat" where
  "count_confirm u = (Inr False, Suc (fst u), snd u)"

definition count_prompt :: "nat \<times> nat \<Rightarrow> (error + string) \<times> nat \<times> nat" where
  "count_prompt u = (Inr ''bob'', fst u, Suc (snd u))"

definition raising_confirm :: "nat \<Rightarrow> (error + bool) \<times> nat" where
  "raising_confirm n = (Inl (Exception ''no answer''), Suc n)"

definition raising_prompt :: "nat \<Rightarrow> (error + string) \<times> nat" where
  "raising_prompt n = (Inl (Exception ''no answer''), Suc n)"

section \<open>Properties\<close>

subsection \<open>Shared facts about the callbacks\<close>

lemma javaScriptConfirm_unset:
  \<open>confirm_expected g = None \<Longrightarrow>
     javaScriptConfirm m g =
       (Inl (Exception (''You must specified a value to confirm "'' @ m @ ''"'')), g)\<close>
  by (simp add: javaScriptConfirm_def)

lemma javaScriptConfirm_value:
  "confirm_expected g = Some (c, None) \<Longrightarrow>
     javaScriptConfirm m g = (Inr c, g\<lparr>confirm_expected := None\<rparr>)"
  by (simp add: javaScriptConfirm_def)

lemma javaScriptConfirm_callback:
  "confirm_expected g = Some (c, Some cb) \<Longrightarrow>
     javaScriptConfirm m g =
       (fst (cb (caller g)),
        g\<lparr>confirm_expected := None, caller := snd (cb (caller g))\<rparr>)"
  by (simp add: javaScriptConfirm_def split: prod.splits)

lemma javaScriptPrompt_unset:
  \<open>prompt_expected g = None \<Longrightarrow>
     javaScriptPrompt m d res g =
       (Inl (Exception (''You must specified a value for prompt "'' @ m @ ''"'')), g)\<close>
  by (simp add: javaScriptPrompt_def)

lemma javaScriptPrompt_value:
  "prompt_expected g = Some (v, None) \<Longrightarrow>
     javaScriptPrompt m d res g = prompt_answer res v g"
  by (simp add: javaScriptPrompt_def)

lemma javaScriptPrompt_returns:
  "prompt_expected g = Some (v, Some cb) \<Longrightarrow> fst (cb (caller g)) = Inr a \<Longrightarrow>
     javaScriptPrompt m d res g = prompt_answer res a (g\<lparr>caller := snd (cb (caller g))\<rparr>)"
  by (cases "cb (caller g)") (simp add: javaScriptPrompt_def)

lemma javaScriptPrompt_raises:
  "prompt_expected g = Some (v, Some cb) \<Longrightarrow> fst (cb (caller g)) = Inl e \<Longrightarrow>
     javaScriptPrompt m d res g = (Inl e, g\<lparr>caller := snd (cb (caller g))\<rparr>)"
  by (cases "cb (caller g)") (simp add: javaScriptPrompt_def)

lemma fst_prompt_answer:
  "fst (prompt_answer res a g) =
     Inr (case res of None \<Rightarrow> ReturnPair True a | Some lst \<Rightarrow> ReturnBool True (lst @ [a]))"
  by (simp add: prompt_answer_def Let_def split: option.splits)

lemma snd_prompt_answer: "snd (prompt_answer res a g) = g\<lparr>prompt_expected := None\<rparr>"
  by (simp add: prompt_answer_def Let_def split: option.splits)

lemma header_dict_decodes:
  "list_all (\<lambda>h. ascii (rawHeader r h) \<and> ascii h) hl \<Longrightarrow>
     header_dict r hl hs = Inr (fold (\<lambda>h hs. hs(h \<mapsto> rawHeader r h)) hl hs)"
  by (induction hl arbitrary: hs) (simp_all add: unicode_def)

lemma HttpResource_decodes:
  "headers_decode r \<Longrightarrow> HttpResource r c content0 = Inr (resource_record r c content0)"
  by (simp add: HttpResource_def headers_decode_def header_dict_decodes resource_record_def
      decoded_headers_def Let_def)

lemma request_ended_decodes:
  "truthy (status_code r) \<Longrightarrow> headers_decode r \<Longrightarrow>
     request_ended r g =
       (Inr (), g\<lparr>http_resources := http_resources g @ [resource_record r (cache g) None]\<rparr>)"
  by (simp add: request_ended_def HttpResource_decodes)

lemma unsupported_content_decodes:
  "truthy (status_code r) \<Longrightarrow> headers_decode r \<Longrightarrow>
     unsupported_content r g =
       (Inr (), g\<lparr>http_resources := http_resources g
                    @ [resource_record r (cache g) (Some (Bytes (read_all r)))]\<rparr>)"
  by (simp add: unsupported_content_def HttpResource_decodes)

lemma reply_without_status:
  "\<not> truthy (status_code r) \<Longrightarrow> request_ended r g = (Inr (), g)"
  "\<not> truthy (status_code r) \<Longrightarrow> unsupported_content r g = (Inr (), g)"
  by (simp_all add: request_ended_def unsupported_content_def)

lemma reply_callbacks_keep_cache:
  "cache (snd (request_ended r g)) = cache g"
  "cache (snd (unsupported_content r g)) = cache g"
  by (simp_all add: request_ended_def unsupported_content_def split: sum.splits)

lemma hooks_keep_buffer:
  "http_resources (snd (javaScriptAlert m g)) = http_resources g"
  "http_resources (snd (javaScriptConfirm m g)) = http_resources g"
  "http_resources (snd (javaScriptPrompt m d res g)) = http_resources g"
  by (simp_all add: javaScriptAlert_def javaScriptConfirm_def javaScriptPrompt_def
      prompt_answer_def Let_def split: option.splits prod.splits sum.splits)

lemma handle_buffer:
  "event_decodes e \<Longrightarrow> http_resources (handle e g) = http_resources g @ recorded e g"
  by (cases e)
    (simp_all add: page_load_started_def page_loaded_def request_ended_decodes
      unsupported_content_decodes hooks_keep_buffer reply_without_status)

lemma process_events_buffer:
  "list_all event_decodes evs \<Longrightarrow>
     http_resources (process_events evs g) = http_resources g @ arrivals evs g"
  by (induction evs arbitrary: g) (simp_all add: handle_buffer)

subsection \<open>The resource buffer\<close>

text \<open>
  C2, as the claim states it, fails: a reply whose status attribute is \<^verbatim>\<open>None\<close> (a local
  file, a refused connection) reaches \<^verbatim>\<open>_request_ended\<close> and is not appended to the
  buffer, because of the guard of line 695.
\<close>

theorem reply_without_status_not_buffered:
  "http_resources (snd (request_ended reply_no_status (ghost_init ()))) = []"
  by (simp add: request_ended_def reply_no_status_def truthy_def ghost_init_def)

text \<open>
  C2 (amended): a finished or unsupported-content callback whose reply has a true status
  attribute and headers that decode appends the \<^verbatim>\<open>HttpResource\<close> record of the reply; a
  callback whose reply has no true status attribute appends nothing. In a run \<open>evs\<close> of the
  engine in which the headers of every reply with a status decode, no other callback
  touches the buffer, and a drain that follows a drain and the run returns exactly the
  records of the replies of the run that have a status, in the order of arrival, and
  leaves the buffer empty. (What happens to a reply whose headers do not decode is not
  part of the statement.)
\<close>

theorem drain_returns_recorded_arrivals:
  "(truthy (status_code r) \<and> headers_decode r \<longrightarrow>
      request_ended r g =
        (Inr (), g\<lparr>http_resources := http_resources g @ [resource_record r (cache g) None]\<rparr>)
      \<and> unsupported_content r g =
        (Inr (), g\<lparr>http_resources := http_resources g
                     @ [resource_record r (cache g) (Some (Bytes (read_all r)))]\<rparr>))
   \<and> (\<not> truthy (status_code r) \<longrightarrow>
      request_ended r g = (Inr (), g) \<and> unsupported_content r g = (Inr (), g))
   \<and> (event_decodes e \<longrightarrow> http_resources (handle e g) = http_resources g @ recorded e g)
   \<and> (list_all event_decodes evs \<longrightarrow>
      release_last_resources (process_events evs (snd (release_last_resources g)))
       = (arrivals evs (snd (release_last_resources g)),
          (process_events evs (snd (release_last_resources g)))\<lparr>http_resources := []\<rparr>))
   \<and> http_resources (snd (release_last_resources g)) = []"
  by (simp add: release_last_resources_def process_events_buffer handle_buffer
      request_ended_decodes unsupported_content_decodes reply_without_status)

theorem drain_returns_recorded_arrivals_witness:
  "truthy (status_code reply_ok) \<and> headers_decode reply_ok
   \<and> \<not> truthy (status_code reply_no_status)
   \<and> list_all event_decodes
        [RequestEnded reply_ok, RequestEnded reply_no_status, LoadFinished,
         UnsupportedContent reply_pdf]
   \<and> http_resources (snd (request_ended reply_ok (ghost_init ())))
       = [resource_record reply_ok Map.empty None]
   \<and> http_resources (snd (request_ended reply_no_status (ghost_init ()))) = []
   \<and> fst (release_last_resources (process_events
       [RequestEnded reply_ok, RequestEnded reply_no_status, LoadFinished,
        UnsupportedContent reply_pdf]
       (snd (release_last_resources (ghost_init ())))))
     = [resource_record reply_ok Map.empty None,
        resource_record reply_pdf Map.empty (Some (Bytes ''%PDF''))]
   \<and> map url (fst (release_last_resources (process_events
       [RequestEnded reply_ok, RequestEnded reply_no_status, LoadFinished,
        UnsupportedContent reply_pdf]
       (snd (release_last_resources (ghost_init ()))))))
     = [''http://localhost/a'', ''http://localhost/b.pdf'']"
proof -
  have ok: "truthy (status_code reply_ok) \<and> headers_decode reply_ok"
    by (simp add: reply_ok_def truthy_def headers_decode_def rawHeaderList_def rawHeader_def
        ascii_def)
  have no: "\<not> truthy (status_code reply_no_status)"
    by (simp add: reply_no_status_def truthy_def)
  have run: "list_all event_decodes
        [RequestEnded reply_ok, RequestEnded reply_no_status, LoadFinished,
         UnsupportedContent reply_pdf]"
    using ok no
    by (simp add: reply_pdf_def headers_decode_def rawHeaderList_def)
  have pdf: "truthy (status_code reply_pdf)" "read_all reply_pdf = ''%PDF''"
    by (simp_all add: reply_pdf_def truthy_def)
  have start: "snd (release_last_resources (ghost_init ())) = ghost_init ()"
    "http_resources (ghost_init ()) = []" "cache (ghost_init ()) = Map.empty"
    by (simp_all add: release_last_resources_def ghost_init_def)
  let ?evs = "[RequestEnded reply_ok, RequestEnded reply_no_status, LoadFinished,
         UnsupportedContent reply_pdf]"
  have arrived: "arrivals ?evs (ghost_init ())
      = [resource_record reply_ok Map.empty None,
         resource_record reply_pdf Map.empty (Some (Bytes ''%PDF''))]"
    using ok no pdf start by (simp add: reply_callbacks_keep_cache page_loaded_def)
  from run drain_returns_recorded_arrivals [where g = "ghost_init ()" and evs = ?evs]
  have "fst (release_last_resources
          (process_events ?evs (snd (release_last_resources (ghost_init ())))))
      = arrivals ?evs (snd (release_last_resources (ghost_init ())))"
    by simp
  then have drained: "fst (release_last_resources
          (process_events ?evs (snd (release_last_resources (ghost_init ())))))
      = [resource_record reply_ok Map.empty None,
         resource_record reply_pdf Map.empty (Some (Bytes ''%PDF''))]"
    using arrived start by simp
  have first: "http_resources (snd (request_ended reply_ok (ghost_init ())))
       = [resource_record reply_ok Map.empty None]"
    using ok start by (simp add: request_ended_decodes)
  have second: "http_resources (snd (request_ended reply_no_status (ghost_init ()))) = []"
    using no start by (simp add: reply_without_status)
  from drained have urls: "map url (fst (release_last_resources
          (process_events ?evs (snd (release_last_resources (ghost_init ()))))))
      = [''http://localhost/a'', ''http://localhost/b.pdf'']"
    by (simp add: resource_record_def reply_ok_def reply_pdf_def)
  from ok no run first second drained urls show ?thesis by blast
qed

subsection \<open>The dialog hooks\<close>

text \<open>
  C4, as the claim states it, fails for the alert hook: with every slot unset the alert
  hook returns normally.
\<close>

theorem alert_hook_returns_when_unset:
  "alert_message (ghost_init ()) = None \<and> confirm_expected (ghost_init ()) = None
   \<and> prompt_expected (ghost_init ()) = None
   \<and> fst (javaScriptAlert ''hi'' (ghost_init ())) = Inr ()"
  by (simp add: ghost_init_def javaScriptAlert_def)

text \<open>
  C4 (amended): the confirm hook and the prompt hook fail with an exception when their
  slot is unset, and leave the state as it is; the alert hook has no expected-answer slot
  and never fails: it stores the message in \<^verbatim>\<open>Ghost._alert\<close>.
\<close>

theorem unset_slot_hooks:
  \<open>(confirm_expected g = None \<longrightarrow>
      javaScriptConfirm m g =
        (Inl (Exception (''You must specified a value to confirm "'' @ m @ ''"'')), g))
   \<and> (prompt_expected g = None \<longrightarrow>
      javaScriptPrompt m d res g =
        (Inl (Exception (''You must specified a value for prompt "'' @ m @ ''"'')), g))
   \<and> javaScriptAlert m g = (Inr (), g\<lparr>alert_message := Some m\<rparr>)\<close>
  by (simp add: javaScriptConfirm_unset javaScriptPrompt_unset javaScriptAlert_def)

theorem unset_slot_hooks_witness:
  \<open>confirm_expected (ghost_init ()) = None \<and> prompt_expected (ghost_init ()) = None
   \<and> fst (javaScriptConfirm ''sure?'' (ghost_init ()))
       = Inl (Exception ''You must specified a value to confirm "sure?"'')
   \<and> fst (javaScriptPrompt ''name?'' [] None (ghost_init ()))
       = Inl (Exception ''You must specified a value for prompt "name?"'')
   \<and> fst (javaScriptAlert ''hi'' (ghost_init ())) = Inr ()\<close>
  using unset_slot_hooks [where g = "ghost_init ()" and m = "''sure?''" and d = "[]" and res = None]
    unset_slot_hooks [where g = "ghost_init ()" and m = "''name?''" and d = "[]" and res = None]
    unset_slot_hooks [where g = "ghost_init ()" and m = "''hi''" and d = "[]" and res = None]
  by (simp add: ghost_init_def)

text \<open>
  C5: after an expectation is set with a fixed value and a callback, the answer of the
  confirm hook and of the prompt hook (in either shape of its result) is what the callback
  returns, not the fixed value; after one set with no callback it is the fixed value. (The
  outcome of the hook is the outcome of the callback: when the callback raises, so does
  the hook.)
\<close>

theorem callback_answer_replaces_value:
  "fst (javaScriptConfirm m (confirm_enter c (Some cb) g)) = fst (cb (caller g))
   \<and> fst (javaScriptConfirm m (confirm_enter c None g)) = Inr c
   \<and> fst (javaScriptPrompt m d None (prompt_enter v (Some pcb) g))
       = map_sum id (ReturnPair True) (fst (pcb (caller g)))
   \<and> fst (javaScriptPrompt m d (Some lst) (prompt_enter v (Some pcb) g))
       = map_sum id (\<lambda>a. ReturnBool True (lst @ [a])) (fst (pcb (caller g)))
   \<and> fst (javaScriptPrompt m d None (prompt_enter v None g)) = Inr (ReturnPair True v)
   \<and> fst (javaScriptPrompt m d (Some lst) (prompt_enter v None g))
       = Inr (ReturnBool True (lst @ [v]))"
proof -
  have c: "confirm_expected (confirm_enter c (Some cb) g) = Some (c, Some cb)"
    "confirm_expected (confirm_enter c None g) = Some (c, None)"
    "caller (confirm_enter c (Some cb) g) = caller g"
    by (simp_all add: confirm_enter_def)
  have p: "prompt_expected (prompt_enter v (Some pcb) g) = Some (v, Some pcb)"
    "prompt_expected (prompt_enter v None g) = Some (v, None)"
    "caller (prompt_enter v (Some pcb) g) = caller g"
    by (simp_all add: prompt_enter_def)
  have "fst (javaScriptPrompt m d res (prompt_enter v (Some pcb) g))
      = map_sum id (\<lambda>a. case res of None \<Rightarrow> ReturnPair True a
                                  | Some lst \<Rightarrow> ReturnBool True (lst @ [a]))
          (fst (pcb (caller g)))" for res
  proof (cases "fst (pcb (caller g))")
    case (Inl e)
    then show ?thesis using p by (simp add: javaScriptPrompt_raises)
  next
    case (Inr a)
    then show ?thesis using p by (simp add: javaScriptPrompt_returns fst_prompt_answer)
  qed
  from this [of None] this [of "Some lst"] c p show ?thesis
    by (simp add: javaScriptConfirm_callback javaScriptConfirm_value javaScriptPrompt_value
        fst_prompt_answer)
qed

theorem callback_answer_replaces_value_witness:
  "fst (javaScriptConfirm ''sure?''
          (confirm_enter True (Some count_confirm) (ghost_init (0 :: nat, 0 :: nat))))
     = Inr False
   \<and> fst (javaScriptConfirm ''sure?'' (confirm_enter True None (ghost_init (0 :: nat, 0 :: nat))))
       = Inr True
   \<and> fst (javaScriptPrompt ''name?'' [] None
            (prompt_enter ''alice'' (Some count_prompt) (ghost_init (0 :: nat, 0 :: nat))))
       = Inr (ReturnPair True ''bob'')
   \<and> fst (javaScriptPrompt ''name?'' [] None
            (prompt_enter ''alice'' None (ghost_init (0 :: nat, 0 :: nat))))
       = Inr (ReturnPair True ''alice'')"
  using callback_answer_replaces_value [where g = "ghost_init (0 :: nat, 0 :: nat)"
      and m = "''sure?''" and c = True and cb = count_confirm and v = "''alice''"
      and pcb = count_prompt and d = "[]"]
    callback_answer_replaces_value [where g = "ghost_init (0 :: nat, 0 :: nat)"
      and m = "''name?''" and c = True and cb = count_confirm and v = "''alice''"
      and pcb = count_prompt and d = "[]"]
  by (simp add: count_confirm_def count_prompt_def)

text \<open>
  C8: with an expectation in the slot whose answer is \<open>answer\<close> (the fixed value, or what
  the callback returns), the prompt hook called without \<^verbatim>\<open>result\<close> returns the pair
  \<^verbatim>\<open>(True, answer)\<close>; called with a list it appends the answer to the list and returns
  \<^verbatim>\<open>True\<close> alone. When the callback raises, the hook raises in either case. Both calls
  leave the same state.
\<close>

theorem prompt_result_shape:
  "prompt_expected g = Some (v, callback) \<Longrightarrow>
   outcome = (case callback of None \<Rightarrow> Inr v | Some cb \<Rightarrow> fst (cb (caller g))) \<Longrightarrow>
     (outcome = Inr answer \<longrightarrow>
        fst (javaScriptPrompt m d None g) = Inr (ReturnPair True answer)
        \<and> fst (javaScriptPrompt m d (Some lst) g) = Inr (ReturnBool True (lst @ [answer])))
   \<and> (outcome = Inl e \<longrightarrow>
        fst (javaScriptPrompt m d None g) = Inl e
        \<and> fst (javaScriptPrompt m d (Some lst) g) = Inl e)
   \<and> snd (javaScriptPrompt m d None g) = snd (javaScriptPrompt m d (Some lst) g)"
proof (cases callback)
  case None
  assume "prompt_expected g = Some (v, callback)"
    and "outcome = (case callback of None \<Rightarrow> Inr v | Some cb \<Rightarrow> fst (cb (caller g)))"
  with None show ?thesis
    by (simp add: javaScriptPrompt_value fst_prompt_answer snd_prompt_answer)
next
  case (Some cb)
  assume slot: "prompt_expected g = Some (v, callback)"
    and out: "outcome = (case callback of None \<Rightarrow> Inr v | Some cb \<Rightarrow> fst (cb (caller g)))"
  show ?thesis
  proof (cases "fst (cb (caller g))")
    case (Inl x)
    with Some slot out show ?thesis by (simp add: javaScriptPrompt_raises)
  next
    case (Inr a)
    with Some slot out show ?thesis
      by (simp add: javaScriptPrompt_returns fst_prompt_answer snd_prompt_answer)
  qed
qed

theorem prompt_result_shape_witness:
  "prompt_expected (prompt_enter ''bob'' None (ghost_init ())) = Some (''bob'', None)
   \<and> fst (javaScriptPrompt ''name?'' [] None (prompt_enter ''bob'' None (ghost_init ())))
       = Inr (ReturnPair True ''bob'')
   \<and> fst (javaScriptPrompt ''name?'' [] (Some [''x'']) (prompt_enter ''bob'' None (ghost_init ())))
       = Inr (ReturnBool True [''x'', ''bob''])
   \<and> prompt_expected (prompt_enter ''alice'' (Some raising_prompt) (ghost_init 0))
       = Some (''alice'', Some raising_prompt)
   \<and> fst (raising_prompt (caller (prompt_enter ''alice'' (Some raising_prompt) (ghost_init 0))))
       = Inl (Exception ''no answer'')
   \<and> fst (javaScriptPrompt ''name?'' [] (Some [''x''])
            (prompt_enter ''alice'' (Some raising_prompt) (ghost_init 0)))
       = Inl (Exception ''no answer'')"
proof -
  have slot: "prompt_expected (prompt_enter ''bob'' None (ghost_init ())) = Some (''bob'', None)"
    by (simp add: prompt_enter_def)
  have slot': "prompt_expected (prompt_enter ''alice'' (Some raising_prompt) (ghost_init 0))
       = Some (''alice'', Some raising_prompt)"
    by (simp add: prompt_enter_def)
  have raises: "fst (raising_prompt
        (caller (prompt_enter ''alice'' (Some raising_prompt) (ghost_init 0))))
       = Inl (Exception ''no answer'')"
    by (simp add: raising_prompt_def)
  show ?thesis
    using slot slot' raises
      prompt_result_shape [OF slot, where outcome = "Inr ''bob''" and answer = "''bob''"
        and lst = "[''x'']" and m = "''name?''" and d = "[]"]
      prompt_result_shape [OF slot', where outcome = "Inl (Exception ''no answer'')"
        and e = "Exception ''no answer''" and lst = "[''x'']" and m = "''name?''" and d = "[]"]
    by simp
qed

subsection \<open>Frame facts of the callbacks\<close>

lemma handle_cache_none:
  "cache g u = None \<Longrightarrow> (\<forall>d. e \<noteq> CacheStored u d) \<Longrightarrow> cache (handle e g) u = None"
  by (cases e)
    (auto simp add: page_load_started_def page_loaded_def request_ended_def
      unsupported_content_def javaScriptAlert_def javaScriptConfirm_def javaScriptPrompt_def
      prompt_answer_def Let_def split: sum.splits option.splits prod.splits)

lemma process_events_cache_none:
  "cache g u = None \<Longrightarrow> (\<forall>d. CacheStored u d \<notin> set evs) \<Longrightarrow>
     cache (process_events evs g) u = None"
proof (induction evs arbitrary: g)
  case Nil
  then show ?case by simp
next
  case (Cons e evs)
  from Cons.prems have "cache (handle e g) u = None"
    by (intro handle_cache_none) auto
  moreover from Cons.prems have "\<forall>d. CacheStored u d \<notin> set evs" by auto
  ultimately show ?case using Cons.IH by simp
qed

lemma HttpResource_content:
  "HttpResource r c None = Inr x \<Longrightarrow> content x = cached_content c (reply_url r)"
  by (auto simp add: HttpResource_def Let_def split: sum.splits)

lemma handle_wait_timeout: "wait_timeout (handle e g) = wait_timeout g"
  by (cases e)
    (simp_all add: page_load_started_def page_loaded_def request_ended_def
      unsupported_content_def javaScriptAlert_def javaScriptConfirm_def javaScriptPrompt_def
      prompt_answer_def Let_def split: sum.splits option.splits prod.splits)

lemma process_events_wait_timeout: "wait_timeout (process_events evs g) = wait_timeout g"
  by (induction evs arbitrary: g) (simp_all add: handle_wait_timeout)

lemma wait_step_wait_timeout: "wait_timeout (wait_step env k g) = wait_timeout g"
  by (simp add: wait_step_def run_wait_callback_def process_events_wait_timeout
      split: option.splits)

lemma wait_state_wait_timeout: "wait_timeout (wait_state env g k) = wait_timeout g"
  by (induction k) (simp_all add: wait_step_wait_timeout)

lemma handle_loaded:
  "e \<noteq> LoadStarted \<Longrightarrow> e \<noteq> LoadFinished \<Longrightarrow> loaded (handle e g) = loaded g"
  by (cases e)
    (simp_all add: request_ended_def unsupported_content_def javaScriptAlert_def
      javaScriptConfirm_def javaScriptPrompt_def
      prompt_answer_def Let_def split: sum.splits option.splits prod.splits)

lemma process_events_loaded:
  "LoadStarted \<notin> set evs \<Longrightarrow> LoadFinished \<notin> set evs \<Longrightarrow>
     loaded (process_events evs g) = loaded g"
proof (induction evs arbitrary: g)
  case Nil
  show ?case by simp
next
  case (Cons e evs)
  then have "loaded (handle e g) = loaded g" by (intro handle_loaded) auto
  with Cons show ?case by simp
qed

lemma run_wait_callback_loaded: "loaded (run_wait_callback g) = loaded g"
  by (simp add: run_wait_callback_def split: option.splits)

lemma wait_state_loaded:
  assumes "\<And>k. LoadStarted \<notin> set (pump env k) \<and> LoadFinished \<notin> set (pump env k)"
  shows "loaded (wait_state env g n) = loaded g"
  by (induction n)
    (simp_all add: wait_step_def run_wait_callback_loaded process_events_loaded assms)

lemma wait_loop_state:
  assumes "wait_loop condition msg env s k g = Some res"
  shows "\<forall>g0. g = wait_state env g0 k \<longrightarrow> (\<exists>n. snd res = wait_state env g0 n)"
proof (rule wait_loop.raw_induct
    [where P = "\<lambda>condition msg env s k g res.
                  \<forall>g0. g = wait_state env g0 k \<longrightarrow> (\<exists>n. snd res = wait_state env g0 n)",
      OF _ assms])
  fix f condition msg env s k and g :: "'a ghost" and res
  assume IH: "\<And>condition msg env s k g res. f condition msg env s k g = Some res \<Longrightarrow>
      \<forall>g0. g = wait_state env g0 k \<longrightarrow> (\<exists>n. snd res = wait_state env g0 n)"
    and eq: "(if condition g then Some (Inr (), g)
       else if clock env (Suc k) > float_add env s (wait_timeout g)
         then Some (Inl (Exception msg), g)
       else f condition msg env s (Suc k) (wait_step env k g)) = Some res"
  show "\<forall>g0. g = wait_state env g0 k \<longrightarrow> (\<exists>n. snd res = wait_state env g0 n)"
  proof (intro allI impI)
    fix g0 assume g: "g = wait_state env g0 k"
    show "\<exists>n. snd res = wait_state env g0 n"
    proof (cases "condition g \<or> clock env (Suc k) > float_add env s (wait_timeout g)")
      case True
      with eq have "snd res = g" by (auto split: if_splits)
      with g show ?thesis by blast
    next
      case False
      with eq have "f condition msg env s (Suc k) (wait_step env k g) = Some res" by simp
      moreover have "wait_step env k g = wait_state env g0 (Suc k)" using g by simp
      ultimately show ?thesis using IH by blast
    qed
  qed
qed

lemma wait_for_state:
  "wait_for condition msg env g = Some (r, g') \<Longrightarrow> \<exists>n. g' = wait_state env g n"
  using wait_loop_state [of condition msg env "clock env 0" 0 g "(r, g')"]
  by (simp add: wait_for_def)

subsection \<open>The cache after a finished load\<close>

text \<open>
  C9: the load-finished callback sets the flag and empties the cache. After it, and after
  any further events that store nothing for the URL of a reply, an \<^verbatim>\<open>HttpResource\<close> built
  for that reply without explicit content has no content.
\<close>

theorem load_finished_clears_cache:
  "loaded (page_loaded g) = True \<and> cache (page_loaded g) = Map.empty
   \<and> ((\<forall>d. CacheStored (reply_url r) d \<notin> set evs) \<longrightarrow>
        (case HttpResource r (cache (process_events evs (page_loaded g))) None of
           Inl e \<Rightarrow> True
         | Inr x \<Rightarrow> content x = None))"
proof -
  have "cache (page_loaded g) (reply_url r) = None"
    by (simp add: page_loaded_def)
  then have "(\<forall>d. CacheStored (reply_url r) d \<notin> set evs) \<Longrightarrow>
      cache (process_events evs (page_loaded g)) (reply_url r) = None"
    by (rule process_events_cache_none)
  then show ?thesis
    by (auto simp add: page_loaded_def cached_content_def
        split: sum.splits dest!: HttpResource_content)
qed

theorem load_finished_clears_cache_witness:
  "map_sum id content (HttpResource reply_ok (cache ghost_cached) None) = Inr (Some (Text ''<p>a</p>''))
   \<and> (\<forall>d. CacheStored (reply_url reply_ok) d \<notin> set [RequestEnded reply_pdf])
   \<and> map_sum id content
        (HttpResource reply_ok (cache (process_events [RequestEnded reply_pdf] (page_loaded ghost_cached))) None)
       = Inr None"
  using load_finished_clears_cache [where g = ghost_cached and r = reply_ok and evs = "[RequestEnded reply_pdf]"]
  by (simp add: ghost_cached_def ghost_init_def reply_ok_def reply_pdf_def HttpResource_def
      rawHeaderList_def rawHeader_def unicode_def ascii_def cached_content_def page_loaded_def
      request_ended_def truthy_def Let_def)

subsection \<open>Single use of a dialog expectation\<close>

lemma confirm_hook_clears: "confirm_expected (snd (javaScriptConfirm m g)) = None"
  by (simp add: javaScriptConfirm_def Let_def split: option.splits prod.splits)

lemma prompt_hook_clears_on_answer:
  "fst (javaScriptPrompt m d res g) = Inr x \<Longrightarrow>
     prompt_expected (snd (javaScriptPrompt m d res g)) = None"
  by (auto simp add: javaScriptPrompt_def prompt_answer_def Let_def
      split: option.splits prod.splits sum.splits)

text \<open>
  C3 does not hold of the prompt hook. The confirm hook clears its slot (line 78) before it
  calls the callback (line 81); the prompt hook calls the callback (line 94) before it
  clears its slot (line 98). With a prompt callback that raises, the hook is left with the
  expectation still set, and the next prompt of the page calls the callback again: two
  calls for one acquisition. With a confirm callback that raises, the slot is cleared and
  the callback is called once, however many dialogs follow.
\<close>

theorem prompt_callback_fires_again:
  "fst (javaScriptPrompt ''name?'' [] None
          (prompt_enter ''alice'' (Some raising_prompt) (ghost_init 0)))
     = Inl (Exception ''no answer'')
   \<and> prompt_expected (snd (javaScriptPrompt ''name?'' [] None
          (prompt_enter ''alice'' (Some raising_prompt) (ghost_init 0))))
       = Some (''alice'', Some raising_prompt)
   \<and> caller (process_events [JsPrompt ''name?'' [] None, JsPrompt ''age?'' [] None]
          (prompt_enter ''alice'' (Some raising_prompt) (ghost_init 0))) = 2
   \<and> confirm_expected (snd (javaScriptConfirm ''sure?''
          (confirm_enter True (Some raising_confirm) (ghost_init 0)))) = None
   \<and> caller (process_events [JsConfirm ''sure?'', JsConfirm ''really?'']
          (confirm_enter True (Some raising_confirm) (ghost_init 0))) = 1"
  by (simp add: javaScriptPrompt_def javaScriptConfirm_def prompt_enter_def confirm_enter_def
      raising_prompt_def raising_confirm_def ghost_init_def)

subsection \<open>The wait loop\<close>

lemma wait_loop_raises_at:
  assumes never: "\<And>j. \<not> condition (wait_state env g j)"
    and late: "clock env (Suc n) > float_add env s (wait_timeout g)"
    and early: "\<And>j. j < n \<Longrightarrow> clock env (Suc j) \<le> float_add env s (wait_timeout g)"
  shows "k \<le> n \<Longrightarrow>
     wait_loop condition msg env s k (wait_state env g k)
       = Some (Inl (Exception msg), wait_state env g n)"
proof (induction "n - k" arbitrary: k)
  case 0
  then have "k = n" by simp
  with never [of n] late show ?case
    by (subst wait_loop.simps) (simp add: wait_state_wait_timeout)
next
  case (Suc d)
  then have lt: "k < n" and d: "d = n - Suc k" and le: "Suc k \<le> n" by simp_all
  from early [OF lt]
  have "\<not> clock env (Suc k) > float_add env s (wait_timeout (wait_state env g k))"
    by (simp add: wait_state_wait_timeout)
  with never [of k]
  have "wait_loop condition msg env s k (wait_state env g k)
          = wait_loop condition msg env s (Suc k) (wait_state env g (Suc k))"
    by (subst wait_loop.simps) simp
  also have "\<dots> = Some (Inl (Exception msg), wait_state env g n)"
    using d le by (rule Suc.hyps(1))
  finally show ?case .
qed

lemma wait_for_never_true:
  assumes never: "\<And>k. \<not> condition (wait_state env g k)"
    and passes: "\<exists>n. clock env (Suc n) > float_add env (clock env 0) (wait_timeout g)"
  shows "\<exists>n. wait_for condition msg env g = Some (Inl (Exception msg), wait_state env g n)
           \<and> clock env (Suc n) > float_add env (clock env 0) (wait_timeout g)
           \<and> (\<forall>k<n. clock env (Suc k) \<le> float_add env (clock env 0) (wait_timeout g))"
proof -
  define late where
    "late n \<longleftrightarrow> clock env (Suc n) > float_add env (clock env 0) (wait_timeout g)" for n
  from passes have ex: "\<exists>n. late n" by (simp add: late_def)
  define n where "n = (LEAST n. late n)"
  from ex have n: "late n" unfolding n_def by (rule LeastI_ex)
  have before: "\<not> late k" if "k < n" for k
    using that not_less_Least unfolding n_def by blast
  have "wait_loop condition msg env (clock env 0) 0 (wait_state env g 0)
          = Some (Inl (Exception msg), wait_state env g n)"
  proof (rule wait_loop_raises_at)
    show "\<not> condition (wait_state env g j)" for j by (rule never)
    from n show "float_add env (clock env 0) (wait_timeout g) < clock env (Suc n)"
      by (simp add: late_def)
    show "clock env (Suc j) \<le> float_add env (clock env 0) (wait_timeout g)" if "j < n" for j
      using before [OF that] by (simp add: late_def)
    show "0 \<le> n" by simp
  qed
  then have "wait_for condition msg env g = Some (Inl (Exception msg), wait_state env g n)"
    by (simp add: wait_for_def)
  with n before show ?thesis
    unfolding late_def by (intro exI [of _ n]) (auto simp: not_less)
qed

lemma wait_loop_raise:
  assumes "wait_loop condition msg env s k g = Some res"
  shows "\<forall>g0 e g'. g = wait_state env g0 k \<longrightarrow> res = (Inl e, g') \<longrightarrow>
           e = Exception msg \<and>
           (\<exists>n. g' = wait_state env g0 n
                \<and> clock env (Suc n) > float_add env s (wait_timeout g0))"
proof (rule wait_loop.raw_induct
    [where P = "\<lambda>condition msg env s k g res.
        \<forall>g0 e g'. g = wait_state env g0 k \<longrightarrow> res = (Inl e, g') \<longrightarrow>
           e = Exception msg \<and>
           (\<exists>n. g' = wait_state env g0 n
                \<and> clock env (Suc n) > float_add env s (wait_timeout g0))",
      OF _ assms])
  fix f condition msg env s k and g :: "'a ghost" and res
  assume IH: "\<And>condition msg env s k g res. f condition msg env s k g = Some res \<Longrightarrow>
      \<forall>g0 e g'. g = wait_state env g0 k \<longrightarrow> res = (Inl e, g') \<longrightarrow>
           e = Exception msg \<and>
           (\<exists>n. g' = wait_state env g0 n
                \<and> clock env (Suc n) > float_add env s (wait_timeout g0))"
    and eq: "(if condition g then Some (Inr (), g)
       else if clock env (Suc k) > float_add env s (wait_timeout g)
         then Some (Inl (Exception msg), g)
       else f condition msg env s (Suc k) (wait_step env k g)) = Some res"
  show "\<forall>g0 e g'. g = wait_state env g0 k \<longrightarrow> res = (Inl e, g') \<longrightarrow>
           e = Exception msg \<and>
           (\<exists>n. g' = wait_state env g0 n
                \<and> clock env (Suc n) > float_add env s (wait_timeout g0))"
  proof (intro allI impI)
    fix g0 e g'
    assume g: "g = wait_state env g0 k" and res: "res = (Inl e, g')"
    show "e = Exception msg \<and>
           (\<exists>n. g' = wait_state env g0 n
                \<and> clock env (Suc n) > float_add env s (wait_timeout g0))"
    proof (cases "condition g")
      case True
      with eq res show ?thesis by simp
    next
      case False
      show ?thesis
      proof (cases "clock env (Suc k) > float_add env s (wait_timeout g)")
        case True
        with False eq res have "e = Exception msg" and "g' = g" by simp_all
        moreover from True g have "clock env (Suc k) > float_add env s (wait_timeout g0)"
          by (simp add: wait_state_wait_timeout)
        ultimately show ?thesis using g by blast
      next
        case late: False
        with False eq have "f condition msg env s (Suc k) (wait_step env k g) = Some res"
          by simp
        moreover have "wait_step env k g = wait_state env g0 (Suc k)" using g by simp
        ultimately show ?thesis using IH res by blast
      qed
    qed
  qed
qed

lemma wait_for_raise:
  "wait_for condition msg env g = Some (Inl e, g') \<Longrightarrow>
     e = Exception msg \<and>
     (\<exists>n. g' = wait_state env g n
          \<and> clock env (Suc n) > float_add env (clock env 0) (wait_timeout g))"
  using wait_loop_raise [of condition msg env "clock env 0" 0 g "(Inl e, g')"]
  by (simp add: wait_for_def)

lemma wait_state_idle: "wait_state env_slow ghost_loading k = ghost_loading"
  by (induction k)
    (simp_all add: wait_step_def env_slow_def run_wait_callback_def ghost_loading_def
      ghost_init_def)

lemma wait_state_boundary: "wait_state env_boundary ghost_short k = ghost_short"
  by (induction k)
    (simp_all add: wait_step_def env_boundary_def run_wait_callback_def ghost_short_def
      ghost_init_def)

lemma wait_for_idle:
  "wait_for loaded msg env_slow ghost_loading = Some (Inl (Exception msg), ghost_loading)"
proof -
  have never: "\<And>k. \<not> loaded (wait_state env_slow ghost_loading k)"
    by (simp add: wait_state_idle) (simp add: ghost_loading_def)
  have "\<exists>n. clock env_slow (Suc n)
           > float_add env_slow (clock env_slow 0) (wait_timeout ghost_loading)"
    by (rule exI [of _ 2]) (simp add: env_slow_def ghost_loading_def ghost_init_def)
  with never obtain n where
    "wait_for loaded msg env_slow ghost_loading
       = Some (Inl (Exception msg), wait_state env_slow ghost_loading n)"
    using wait_for_never_true [of loaded env_slow ghost_loading msg] by blast
  then show ?thesis by (simp add: wait_state_idle)
qed

lemma boundary_readings:
  "clock env_boundary 1 \<le> clock env_boundary 0 + wait_timeout ghost_short"
  "clock env_boundary 1
     \<le> float_add env_boundary (clock env_boundary 0) (wait_timeout ghost_short)"
  "clock env_boundary 2
     = float_add env_boundary (clock env_boundary 0) (wait_timeout ghost_short)"
  "clock env_boundary 2 - clock env_boundary 0 > wait_timeout ghost_short"
  "clock env_boundary 3
     > float_add env_boundary (clock env_boundary 0) (wait_timeout ghost_short)"
  "clock env_boundary (Suc (Suc (Suc k))) = clock env_boundary 3"
  by (simp_all add: env_boundary_def ghost_short_def)

lemma boundary_passes:
  "\<exists>n. clock env_boundary (Suc n)
         > float_add env_boundary (clock env_boundary 0) (wait_timeout ghost_short)"
  using boundary_readings(5) by (intro exI [of _ "Suc (Suc 0)"]) (simp add: numeral_3_eq_3)

lemma boundary_never: "\<not> loaded (wait_state env_boundary ghost_short k)"
  by (simp add: wait_state_boundary) (simp add: ghost_short_def)

lemma wait_for_boundary:
  "wait_for loaded msg env_boundary ghost_short = Some (Inl (Exception msg), ghost_short)"
proof -
  from boundary_never boundary_passes obtain n where
    "wait_for loaded msg env_boundary ghost_short
       = Some (Inl (Exception msg), wait_state env_boundary ghost_short n)"
    using wait_for_never_true [of loaded env_boundary ghost_short msg] by blast
  then show ?thesis by (simp add: wait_state_boundary)
qed

text \<open>
  C1, as the claim states it, fails twice. The exception of line 611 is the plain
  \<^verbatim>\<open>Exception\<close>: the source has no \<^verbatim>\<open>TimeoutError\<close>. And the test of line 610 is against the
  double sum of \<^verbatim>\<open>started_at\<close> and \<^verbatim>\<open>wait_timeout\<close>: in the second world below, the
  reading of the second iteration is more than \<^verbatim>\<open>wait_timeout\<close> after the start and equal
  to that double sum, so the loop does not raise there and goes on for another iteration.
\<close>

theorem wait_for_raises_plain_exception:
  "map_option (raised_class \<circ> fst)
       (wait_for loaded ''Unable to load requested page'' env_slow ghost_loading)
     = Some (Some ''Exception'')
   \<and> map_option (raised_class \<circ> fst)
       (wait_for loaded ''Unable to load requested page'' env_slow ghost_loading)
     \<noteq> Some (Some ''TimeoutError'')
   \<and> clock env_boundary 2 - clock env_boundary 0 > wait_timeout ghost_short
   \<and> \<not> loaded ghost_short
   \<and> wait_loop loaded ''Unable to load requested page'' env_boundary (clock env_boundary 0)
         1 ghost_short
       = wait_loop loaded ''Unable to load requested page'' env_boundary (clock env_boundary 0)
           2 (wait_step env_boundary 1 ghost_short)"
proof -
  have "\<not> loaded ghost_short" by (simp add: ghost_short_def)
  moreover have "\<not> clock env_boundary (Suc 1)
      > float_add env_boundary (clock env_boundary 0) (wait_timeout ghost_short)"
    using boundary_readings(3) by (simp add: numeral_2_eq_2)
  ultimately have "wait_loop loaded ''Unable to load requested page'' env_boundary
        (clock env_boundary 0) 1 ghost_short
       = wait_loop loaded ''Unable to load requested page'' env_boundary (clock env_boundary 0)
           2 (wait_step env_boundary 1 ghost_short)"
    by (subst wait_loop.simps) (simp add: numeral_2_eq_2)
  with \<open>\<not> loaded ghost_short\<close> boundary_readings(4) show ?thesis
    by (simp add: wait_for_idle raised_class_def)
qed

text \<open>
  C1 (amended): when the condition is false in every state the loop reaches and some
  reading of the clock is greater than the double sum of \<^verbatim>\<open>started_at\<close> and
  \<^verbatim>\<open>wait_timeout\<close>, \<^verbatim>\<open>wait_for\<close> returns, by raising the plain \<^verbatim>\<open>Exception\<close> that carries the
  caller's message; it raises in the first iteration whose reading is greater than that
  double sum, and in every iteration before, the reading is at most the double sum and the
  loop goes on. Whatever the condition is, when \<^verbatim>\<open>wait_for\<close> raises, it raises that
  exception, in an iteration whose reading is greater than the double sum. And not
  earlier than the timeout: the double sum being the exact sum rounded (a reading that is
  at most the exact sum is at most the double sum), \<^verbatim>\<open>wait_for\<close> raises only in an
  iteration in which more than \<^verbatim>\<open>wait_timeout\<close> has elapsed since the start.
\<close>

theorem wait_for_raises_after_timeout:
  "((\<forall>k. \<not> condition (wait_state env g k))
      \<and> (\<exists>n. clock env (Suc n) > float_add env (clock env 0) (wait_timeout g)) \<longrightarrow>
     (\<exists>n. wait_for condition msg env g = Some (Inl (Exception msg), wait_state env g n)
          \<and> clock env (Suc n) > float_add env (clock env 0) (wait_timeout g)
          \<and> (\<forall>k<n. clock env (Suc k) \<le> float_add env (clock env 0) (wait_timeout g))))
   \<and> (wait_for condition msg env g = Some (Inl e, g') \<longrightarrow>
        e = Exception msg \<and> exception_class e = ''Exception''
        \<and> (\<exists>n. g' = wait_state env g n
               \<and> clock env (Suc n) > float_add env (clock env 0) (wait_timeout g)))
   \<and> ((\<forall>k. clock env (Suc k) \<le> clock env 0 + wait_timeout g \<longrightarrow>
             clock env (Suc k) \<le> float_add env (clock env 0) (wait_timeout g))
        \<and> wait_for condition msg env g = Some (Inl e, g') \<longrightarrow>
        (\<exists>n. g' = wait_state env g n \<and> clock env (Suc n) - clock env 0 > wait_timeout g))"
proof (intro conjI impI)
  assume a: "(\<forall>k. \<not> condition (wait_state env g k))
      \<and> (\<exists>n. clock env (Suc n) > float_add env (clock env 0) (wait_timeout g))"
  then have never: "\<And>k. \<not> condition (wait_state env g k)" by simp
  from a have passes: "\<exists>n. clock env (Suc n) > float_add env (clock env 0) (wait_timeout g)"
    by simp
  from never passes
  show "\<exists>n. wait_for condition msg env g = Some (Inl (Exception msg), wait_state env g n)
          \<and> clock env (Suc n) > float_add env (clock env 0) (wait_timeout g)
          \<and> (\<forall>k<n. clock env (Suc k) \<le> float_add env (clock env 0) (wait_timeout g))"
    by (rule wait_for_never_true)
next
  assume r: "wait_for condition msg env g = Some (Inl e, g')"
  then show "e = Exception msg" by (simp add: wait_for_raise)
  then show "exception_class e = ''Exception''" by simp
  from r show "\<exists>n. g' = wait_state env g n
      \<and> clock env (Suc n) > float_add env (clock env 0) (wait_timeout g)"
    by (simp add: wait_for_raise)
next
  assume a: "(\<forall>k. clock env (Suc k) \<le> clock env 0 + wait_timeout g \<longrightarrow>
             clock env (Suc k) \<le> float_add env (clock env 0) (wait_timeout g))
        \<and> wait_for condition msg env g = Some (Inl e, g')"
  then obtain n where n: "g' = wait_state env g n"
    and late: "clock env (Suc n) > float_add env (clock env 0) (wait_timeout g)"
    using wait_for_raise [of condition msg env g e g'] by blast
  from a late have "\<not> clock env (Suc n) \<le> clock env 0 + wait_timeout g"
    by (meson not_less)
  then have "clock env (Suc n) - clock env 0 > wait_timeout g" by simp
  with n show "\<exists>n. g' = wait_state env g n \<and> clock env (Suc n) - clock env 0 > wait_timeout g"
    by blast
qed

theorem wait_for_raises_after_timeout_witness:
  "(\<forall>k. \<not> loaded (wait_state env_boundary ghost_short k))
   \<and> clock env_boundary 1 \<le> clock env_boundary 0 + wait_timeout ghost_short
   \<and> clock env_boundary 1
       \<le> float_add env_boundary (clock env_boundary 0) (wait_timeout ghost_short)
   \<and> clock env_boundary 2
       \<le> float_add env_boundary (clock env_boundary 0) (wait_timeout ghost_short)
   \<and> clock env_boundary 3
       > float_add env_boundary (clock env_boundary 0) (wait_timeout ghost_short)
   \<and> (\<forall>k. \<not> clock env_boundary (Suc (Suc k)) \<le> clock env_boundary 0 + wait_timeout ghost_short)
   \<and> wait_for loaded ''Unable to load requested page'' env_boundary ghost_short
       = Some (Inl (Exception ''Unable to load requested page''), ghost_short)
   \<and> exception_class (Exception ''Unable to load requested page'') = ''Exception''
   \<and> (\<exists>n. clock env_boundary (Suc n) - clock env_boundary 0 > wait_timeout ghost_short
          \<and> clock env_boundary (Suc n)
              > float_add env_boundary (clock env_boundary 0) (wait_timeout ghost_short))"
proof -
  have never: "\<forall>k. \<not> loaded (wait_state env_boundary ghost_short k)"
    by (simp add: boundary_never)
  have later: "\<not> clock env_boundary (Suc (Suc k))
      \<le> clock env_boundary 0 + wait_timeout ghost_short" for k
  proof (cases k)
    case 0
    with boundary_readings(4) show ?thesis by (simp add: numeral_2_eq_2)
  next
    case (Suc j)
    have "clock env_boundary 2 < clock env_boundary 3" by (simp add: env_boundary_def)
    with boundary_readings(4) Suc show ?thesis by (simp add: boundary_readings(6))
  qed
  have rounded: "\<forall>k. clock env_boundary (Suc k) \<le> clock env_boundary 0 + wait_timeout ghost_short
      \<longrightarrow> clock env_boundary (Suc k)
            \<le> float_add env_boundary (clock env_boundary 0) (wait_timeout ghost_short)"
  proof (intro allI impI)
    fix k
    assume le: "clock env_boundary (Suc k) \<le> clock env_boundary 0 + wait_timeout ghost_short"
    show "clock env_boundary (Suc k)
        \<le> float_add env_boundary (clock env_boundary 0) (wait_timeout ghost_short)"
    proof (cases k)
      case 0
      with boundary_readings(2) show ?thesis by simp
    next
      case (Suc j)
      with le later [of j] show ?thesis by simp
    qed
  qed
  note inst = wait_for_raises_after_timeout [of loaded env_boundary ghost_short
      "''Unable to load requested page''" "Exception ''Unable to load requested page''"
      ghost_short]
  from never boundary_passes inst
  obtain n where "wait_for loaded ''Unable to load requested page'' env_boundary ghost_short
       = Some (Inl (Exception ''Unable to load requested page''),
               wait_state env_boundary ghost_short n)"
    by blast
  then have raised: "wait_for loaded ''Unable to load requested page'' env_boundary ghost_short
       = Some (Inl (Exception ''Unable to load requested page''), ghost_short)"
    by (simp add: wait_state_boundary)
  from raised rounded inst
  obtain m where "clock env_boundary (Suc m) - clock env_boundary 0 > wait_timeout ghost_short"
    by blast
  moreover from raised inst
  obtain m' where "clock env_boundary (Suc m')
      > float_add env_boundary (clock env_boundary 0) (wait_timeout ghost_short)"
    by blast
  ultimately have ex: "\<exists>n. clock env_boundary (Suc n) - clock env_boundary 0
        > wait_timeout ghost_short
      \<and> clock env_boundary (Suc n)
          > float_add env_boundary (clock env_boundary 0) (wait_timeout ghost_short)"
    using boundary_readings(5) by (intro exI [of _ "Suc (Suc 0)"])
      (simp add: numeral_3_eq_3 env_boundary_def ghost_short_def)
  from never boundary_readings(1,2,3,5) later raised ex show ?thesis by simp
qed

lemma page_for_filter:
  "page_for u rs page =
     (case filter (\<lambda>r. url r = u) rs of [] \<Rightarrow> page | x # xs \<Rightarrow> Some (last (x # xs)))"
proof (induction rs arbitrary: page)
  case Nil
  show ?case by simp
next
  case (Cons r rs)
  show ?case
    by (cases "filter (\<lambda>r. url r = u) rs") (auto simp add: Cons.IH)
qed

text \<open>
  C10: when the wait succeeds, \<^verbatim>\<open>wait_for_page_loaded\<close> returns every released resource,
  and as the page the last of them whose URL is the URL of the main frame; when no
  released resource has that URL the page is \<^verbatim>\<open>None\<close> and the list is returned all the
  same. The buffer is empty afterwards.
\<close>

theorem page_is_last_matching_resource:
  assumes "wait_for loaded ''Unable to load requested page'' env g = Some (Inr (), g1)"
  shows "wait_for_page_loaded env g
           = Some (Inr (case filter (\<lambda>r. url r = frame_url g1) (http_resources g1) of
                          [] \<Rightarrow> None
                        | x # xs \<Rightarrow> Some (last (x # xs)),
                        http_resources g1),
                   g1\<lparr>http_resources := []\<rparr>)
         \<and> ((\<forall>r \<in> set (http_resources g1). url r \<noteq> frame_url g1) \<longrightarrow>
              wait_for_page_loaded env g
                = Some (Inr (None, http_resources g1), g1\<lparr>http_resources := []\<rparr>))"
proof -
  have first: "wait_for_page_loaded env g
           = Some (Inr (case filter (\<lambda>r. url r = frame_url g1) (http_resources g1) of
                          [] \<Rightarrow> None
                        | x # xs \<Rightarrow> Some (last (x # xs)),
                        http_resources g1),
                   g1\<lparr>http_resources := []\<rparr>)"
    using assms
    by (simp add: wait_for_page_loaded_def release_last_resources_def page_for_filter)
  have "filter (\<lambda>r. url r = frame_url g1) (http_resources g1) = []"
    if "\<forall>r \<in> set (http_resources g1). url r \<noteq> frame_url g1"
    using that by (simp add: filter_empty_conv)
  with first show ?thesis by simp
qed

lemma wait_env_page:
  "wait_for loaded msg (env_page u) ghost_loading
     = Some (Inr (), wait_step (env_page u) 0 ghost_loading)"
  apply (simp add: wait_for_def)
  apply (subst wait_loop.simps)
  apply (simp add: ghost_loading_def ghost_init_def env_page_def)
  apply (subst wait_loop.simps)
  apply (simp add: wait_step_def run_wait_callback_def page_loaded_def page_load_started_def
      request_ended_def truthy_def reply_moved_def reply_ok_def reply_pdf_def
      HttpResource_def Let_def rawHeaderList_def rawHeader_def unicode_def ascii_def)
  done

theorem page_is_last_matching_resource_witness:
  "wait_for loaded ''Unable to load requested page'' (env_page ''http://localhost/a'') ghost_loading
     = Some (Inr (), wait_step (env_page ''http://localhost/a'') 0 ghost_loading)
   \<and> map_option (map_prod (map_sum id (map_prod (map_option http_status) (map http_status))) http_resources)
       (wait_for_page_loaded (env_page ''http://localhost/a'') ghost_loading)
       = Some (Inr (Some (Some 200), [Some 301, Some 200, Some 200]), [])
   \<and> map_option (map_prod (map_sum id (map_prod (map_option http_status) (map http_status))) http_resources)
       (wait_for_page_loaded (env_page ''http://localhost/c'') ghost_loading)
       = Some (Inr (None, [Some 301, Some 200, Some 200]), [])"
  using page_is_last_matching_resource [OF wait_env_page [of "''Unable to load requested page''" "''http://localhost/a''"]]
    page_is_last_matching_resource [OF wait_env_page [of "''Unable to load requested page''" "''http://localhost/c''"]]
    wait_env_page [of "''Unable to load requested page''" "''http://localhost/a''"]
  by (simp add: wait_step_def run_wait_callback_def page_loaded_def page_load_started_def
      request_ended_def truthy_def reply_moved_def reply_ok_def reply_pdf_def
      HttpResource_def Let_def rawHeaderList_def rawHeader_def unicode_def ascii_def
      ghost_loading_def ghost_init_def env_page_def cached_content_def)

subsection \<open>Operations on a missing element\<close>

lemma find_all_loaded [simp]: "find_all eng selector (g\<lparr>loaded := b\<rparr>) = find_all eng selector g"
  by (simp add: find_all_def)

lemma click_body_missing:
  "find_all eng selector g = [] \<Longrightarrow>
     click_body eng selector g = (Inl (Exception ''Can't find element to click''), g)"
  by (simp add: click_body_def exists_sel_def find_first_def)

lemma fill_body_missing:
  "find_all eng selector g = [] \<Longrightarrow>
     fill_body eng selector vals g = (Inl (Exception ''Can't find form''), g)"
  by (simp add: fill_body_def exists_sel_def find_first_def)

lemma set_field_value_body_missing:
  \<open>find_all eng selector g = [] \<Longrightarrow>
     set_field_value_body eng selector v blur g
       = (Inl (Exception (''can't find element for '' @ selector @ ''"'')), g)\<close>
  by (simp add: set_field_value_body_def find_first_def)

lemma can_load_page_passthrough:
  "can_load_page func False env g =
     Some (case func g of (Inl e, g1) \<Rightarrow> (Inl e, g1) | (Inr x, g1) \<Rightarrow> (Inr (Inl x), g1))"
  by (simp add: can_load_page_def split: prod.splits sum.splits)

lemma can_load_page_raises:
  "func (if expect_loading then g\<lparr>loaded := False\<rparr> else g) = (Inl e, g1) \<Longrightarrow>
     can_load_page func expect_loading env g = Some (Inl e, g1)"
  by (simp add: can_load_page_def split: if_splits)

text \<open>
  C6: when the selector matches no element of the document, \<^verbatim>\<open>click\<close>, \<^verbatim>\<open>fill\<close> and
  \<^verbatim>\<open>set_field_value\<close> raise their not-found exception at once: no script runs, no event
  is processed and nothing is waited for, whatever \<^verbatim>\<open>expect_loading\<close> is.
\<close>

theorem missing_element_raises:
  assumes "find_all eng selector g = []"
  shows \<open>click eng env expect_loading selector g
           = Some (Inl (Exception ''Can't find element to click''),
                   if expect_loading then g\<lparr>loaded := False\<rparr> else g)
       \<and> fill eng env expect_loading selector vals g
           = Some (Inl (Exception ''Can't find form''),
                   if expect_loading then g\<lparr>loaded := False\<rparr> else g)
       \<and> set_field_value eng env expect_loading selector v blur g
           = Some (Inl (Exception (''can't find element for '' @ selector @ ''"'')),
                   if expect_loading then g\<lparr>loaded := False\<rparr> else g)\<close>
proof -
  let ?g = "if expect_loading then g\<lparr>loaded := False\<rparr> else g"
  from assms have none: "find_all eng selector ?g = []" by simp
  show ?thesis
    unfolding click_def fill_def set_field_value_def
    by (intro conjI can_load_page_raises click_body_missing fill_body_missing
        set_field_value_body_missing none)
qed

lemma find_all_textarea: "find_all tag_engine ''TEXTAREA'' ghost_form = []"
  by (simp add: find_all_def tag_engine_def ghost_form_def ghost_init_def upt_rec)

theorem missing_element_raises_witness:
  \<open>find_all tag_engine ''TEXTAREA'' ghost_form = []
   \<and> find_all tag_engine ''INPUT'' ghost_form = [1]
   \<and> click tag_engine env_slow False ''TEXTAREA'' ghost_form
       = Some (Inl (Exception ''Can't find element to click''), ghost_form)
   \<and> fill tag_engine env_slow False ''TEXTAREA'' [(''name'', PyStr ''bob'')] ghost_form
       = Some (Inl (Exception ''Can't find form''), ghost_form)
   \<and> set_field_value tag_engine env_slow False ''TEXTAREA'' (PyStr ''bob'') True ghost_form
       = Some (Inl (Exception ''can't find element for TEXTAREA"''), ghost_form)\<close>
proof -
  have "find_all tag_engine ''INPUT'' ghost_form = [1]"
    by (simp add: find_all_def tag_engine_def ghost_form_def ghost_init_def upt_rec)
  with find_all_textarea
    missing_element_raises [OF find_all_textarea, where env = env_slow and expect_loading = False
      and vals = "[(''name'', PyStr ''bob'')]" and v = "PyStr ''bob''" and blur = True]
  show ?thesis by simp
qed

subsection \<open>Who writes the load flag\<close>

lemma capitalize_get: "capitalize ''get'' = ''Get''"
  by code_simp

lemma wait_for_true_at_once:
  "condition g \<Longrightarrow> wait_for condition msg env g = Some (Inr (), g)"
  by (simp add: wait_for_def wait_loop.simps)

text \<open>
  C7, as the claim states it, fails: a decorated method called with \<^verbatim>\<open>expect_loading\<close>
  writes the flag itself (line 124). Here \<^verbatim>\<open>click\<close> fails on a missing element before
  the engine is asked for anything and no callback runs, and the flag has gone from true
  to false.
\<close>

theorem expect_loading_writes_loaded:
  "loaded (ghost_init ()) = True
   \<and> map_option (loaded \<circ> snd) (click tag_engine env_slow True ''#go'' (ghost_init ()))
       = Some False"
proof -
  have "find_all tag_engine ''#go'' ((ghost_init ())\<lparr>loaded := False\<rparr>) = []"
    by (simp add: find_all_def ghost_init_def)
  then have "click_body tag_engine ''#go'' ((ghost_init ())\<lparr>loaded := False\<rparr>)
      = (Inl (Exception ''Can't find element to click''), (ghost_init ())\<lparr>loaded := False\<rparr>)"
    by (rule click_body_missing)
  then have "click tag_engine env_slow True ''#go'' (ghost_init ())
      = Some (Inl (Exception ''Can't find element to click''), (ghost_init ())\<lparr>loaded := False\<rparr>)"
    unfolding click_def by (intro can_load_page_raises) simp
  then show ?thesis by (simp add: ghost_init_def)
qed

text \<open>
  C7 (amended): the page-load state is one boolean flag. Among the callbacks of the engine
  exactly two write it: load-started sets it to false and load-finished sets it to true;
  every other callback leaves it as it is. The busy-wait loop reads it and does not write
  it: when no load-started and no load-finished event arrives during a wait, the flag
  after the wait is the flag before. Besides the callbacks, a decorated method called with
  \<^verbatim>\<open>expect_loading\<close> sets the flag to false before it runs its body, and \<^verbatim>\<open>open\<close> sets it
  to false after it has asked the frame to load, before it waits.
\<close>

theorem loaded_flag_writers:
  "loaded (page_load_started g) = False \<and> loaded (page_loaded g) = True
   \<and> (e \<noteq> LoadStarted \<and> e \<noteq> LoadFinished \<longrightarrow> loaded (handle e g) = loaded g)
   \<and> loaded (run_wait_callback g) = loaded g
   \<and> ((\<forall>k. LoadStarted \<notin> set (pump env k) \<and> LoadFinished \<notin> set (pump env k))
        \<and> wait_for condition msg env g = Some (r, g') \<longrightarrow> loaded g' = loaded g)
   \<and> (func (g\<lparr>loaded := False\<rparr>) = (Inl err, g1) \<longrightarrow>
        can_load_page func True env g = Some (Inl err, g1))
   \<and> (network_operation eng (capitalize http_method @ ''Operation'') = Some operation \<longrightarrow>
        open_page eng env address http_method hdrs auth0 body0 g
          = wait_for_page_loaded env
              ((process_events
                  (load_request eng address operation hdrs
                     (case body0 of None \<Rightarrow> [] | Some b \<Rightarrow> b))
                  (g\<lparr>auth := auth0, auth_attempt := 0\<rparr>))\<lparr>loaded := False\<rparr>))"
proof -
  have "loaded g' = loaded g"
    if "\<forall>k. LoadStarted \<notin> set (pump env k) \<and> LoadFinished \<notin> set (pump env k)"
      and "wait_for condition msg env g = Some (r, g')"
  proof -
    from that(2) obtain n where "g' = wait_state env g n" by (blast dest: wait_for_state)
    with that(1) show ?thesis by (simp add: wait_state_loaded)
  qed
  then show ?thesis
    by (auto simp add: page_load_started_def page_loaded_def handle_loaded
        run_wait_callback_loaded can_load_page_def open_page_def Let_def)
qed

theorem loaded_flag_writers_witness:
  "JsAlert ''hi'' \<noteq> LoadStarted \<and> JsAlert ''hi'' \<noteq> LoadFinished
   \<and> loaded (handle (JsAlert ''hi'') ghost_form) = loaded ghost_form
   \<and> (\<forall>k. LoadStarted \<notin> set (pump env_slow k) \<and> LoadFinished \<notin> set (pump env_slow k))
   \<and> wait_for loaded ''Unable to load requested page'' env_slow ghost_form
       = Some (Inr (), ghost_form)
   \<and> click_body tag_engine ''TEXTAREA'' (ghost_form\<lparr>loaded := False\<rparr>)
       = (Inl (Exception ''Can't find element to click''), ghost_form\<lparr>loaded := False\<rparr>)
   \<and> can_load_page (click_body tag_engine ''TEXTAREA'') True env_slow ghost_form
       = Some (Inl (Exception ''Can't find element to click''), ghost_form\<lparr>loaded := False\<rparr>)
   \<and> network_operation tag_engine (capitalize ''get'' @ ''Operation'') = Some 2
   \<and> open_page tag_engine env_slow ''http://localhost/a'' ''get'' [] None None ghost_form
       = wait_for_page_loaded env_slow
           ((process_events [LoadStarted] (ghost_form\<lparr>auth := None, auth_attempt := 0\<rparr>))
              \<lparr>loaded := False\<rparr>)"
proof -
  have quiet: "\<forall>k. LoadStarted \<notin> set (pump env_slow k) \<and> LoadFinished \<notin> set (pump env_slow k)"
    by (simp add: env_slow_def)
  have "loaded ghost_form" by (simp add: ghost_form_def ghost_init_def)
  then have wait: "wait_for loaded ''Unable to load requested page'' env_slow ghost_form
       = Some (Inr (), ghost_form)"
    by (rule wait_for_true_at_once)
  have "find_all tag_engine ''TEXTAREA'' (ghost_form\<lparr>loaded := False\<rparr>) = []"
    by (simp add: find_all_textarea)
  then have body: "click_body tag_engine ''TEXTAREA'' (ghost_form\<lparr>loaded := False\<rparr>)
       = (Inl (Exception ''Can't find element to click''), ghost_form\<lparr>loaded := False\<rparr>)"
    by (rule click_body_missing)
  have op: "network_operation tag_engine (capitalize ''get'' @ ''Operation'') = Some 2"
    by (simp add: capitalize_get tag_engine_def)
  have load: "load_request tag_engine ''http://localhost/a'' 2 [] [] = [LoadStarted]"
    by (simp add: tag_engine_def)
  from loaded_flag_writers [where g = ghost_form and e = "JsAlert ''hi''" and env = env_slow
      and condition = loaded and msg = "''Unable to load requested page''" and r = "Inr ()"
      and g' = ghost_form and func = "click_body tag_engine ''TEXTAREA''"
      and err = "Exception ''Can't find element to click''"
      and ?g1.0 = "ghost_form\<lparr>loaded := False\<rparr>" and eng = tag_engine and http_method = "''get''"
      and operation = 2 and address = "''http://localhost/a''" and hdrs = "[]"
      and ?auth0.0 = None and ?body0.0 = None]
    quiet wait body op load
  show ?thesis by simp
qed

end
